theory Spec2Isabelle
  imports Main
begin

section \<open>drun: rebuilding a \<open>docker run\<close> command from an inspected container\<close>

text \<open>
  The program (\<open>main.go\<close>) inspects a container, stops and removes it, pulls its image,
  rebuilds the \<open>docker run\<close> command line from the inspected configuration and, after
  an interactive confirmation, runs it. Go strings are byte sequences: they are modelled
  as \<open>string\<close>, a list of 8-bit characters.
\<close>

subsection \<open>Data model (\<open>main.go\<close>, lines 52--84)\<close>

record Port =
  HostIP :: string
  HostPort :: string

text \<open>
  Go's \<open>int\<close> is a machine integer; the retry count is decoded and never computed with,
  so its range plays no role and it is modelled as \<open>int\<close>.
\<close>

record RestartPolicy =
  Name :: string
  MaximumRetryCount :: int

record NetworkInfo =
  NetworkID :: string

text \<open>The three anonymous structs nested in \<open>ContainerInfo\<close>.\<close>

record Config_struct =
  Image :: string
  Cmd :: "string list"
  Env :: "string list"

record HostConfig_struct =
  Binds :: "string list"
  PortBindings :: "string \<rightharpoonup> Port list"
  RestartPolicy :: RestartPolicy
  NetworkMode :: string
  Privileged :: bool
  PublishAllPorts :: bool

record NetworkSettings_struct =
  Networks :: "string \<rightharpoonup> NetworkInfo"

record ContainerInfo =
  Config :: Config_struct
  HostConfig :: HostConfig_struct
  NetworkSettings :: NetworkSettings_struct
  Name :: string

subsection \<open>The Go library functions the synthesizer calls\<close>

text \<open>\<open>strings.HasPrefix(s, prefix)\<close>: \<open>len(s) >= len(prefix) && s[:len(prefix)] == prefix\<close>.\<close>

definition HasPrefix :: "string \<Rightarrow> string \<Rightarrow> bool" where
  "HasPrefix s pre \<longleftrightarrow> length pre \<le> length s \<and> take (length pre) s = pre"

text \<open>\<open>strings.TrimPrefix(s, prefix)\<close>: \<open>s[len(prefix):]\<close> when \<open>s\<close> has the prefix, else \<open>s\<close>.\<close>

definition TrimPrefix :: "string \<Rightarrow> string \<Rightarrow> string" where
  "TrimPrefix s pre = (if HasPrefix s pre then drop (length pre) s else s)"

text \<open>\<open>strings.Join(elems, sep)\<close>.\<close>

fun Join :: "string list \<Rightarrow> string \<Rightarrow> string" where
  "Join [] sep = []"
| "Join [a] sep = a"
| "Join (a # b # rest) sep = a @ sep @ Join (b # rest) sep"

text \<open>\<open>fmt.Sprintf("%s:%s", a, b)\<close> on two strings.\<close>

definition Sprintf_s_colon_s :: "string \<Rightarrow> string \<Rightarrow> string" where
  "Sprintf_s_colon_s a b = a @ '':'' @ b"

subsection \<open>\<open>shouldSkipEnv\<close> (lines 225--240)\<close>

definition skipPatterns :: "string list" where
  "skipPatterns = [''PATH='', ''HOSTNAME='', ''HOME='', ''TERM='']"

fun shouldSkipEnv_loop :: "string \<Rightarrow> string list \<Rightarrow> bool" where
  "shouldSkipEnv_loop env [] = False"
| "shouldSkipEnv_loop env (pattern # rest) =
     (if HasPrefix env pattern then True else shouldSkipEnv_loop env rest)"

definition shouldSkipEnv :: "string \<Rightarrow> bool" where
  "shouldSkipEnv env = shouldSkipEnv_loop env skipPatterns"

subsection \<open>\<open>generateRunCommand\<close> (lines 174--223)\<close>

text \<open>
  Go visits the keys of a map in an order the language leaves unspecified and the runtime
  randomises: each key once, in some order. The order chosen for one \<open>range\<close> over the
  map is an argument of the model; \<open>range_order m ks\<close> says that \<open>ks\<close> is such an order.
\<close>

definition range_order :: "('k \<rightharpoonup> 'v) \<Rightarrow> 'k list \<Rightarrow> bool" where
  "range_order m ks \<longleftrightarrow> distinct ks \<and> set ks = dom m"

text \<open>Lines 185--187: the loop over the bind mounts.\<close>

fun binds_loop :: "string list \<Rightarrow> string list \<Rightarrow> string list" where
  "binds_loop parts [] = parts"
| "binds_loop parts (bind # rest) = binds_loop (parts @ [''-v'', bind]) rest"

text \<open>Lines 190--195: the inner loop over the host bindings of one container port.\<close>

fun bindings_loop :: "string \<Rightarrow> string list \<Rightarrow> Port list \<Rightarrow> string list" where
  "bindings_loop port parts [] = parts"
| "bindings_loop port parts (binding # rest) =
     bindings_loop port
       (if HostPort binding \<noteq> ''''
        then (let hostPort = HostPort binding
              in parts @ [''-p'', Sprintf_s_colon_s hostPort port])
        else parts)
       rest"

text \<open>
  Lines 189--196: the loop over the map, visiting the keys in the given order. A key of a
  \<open>range\<close> is always bound in the map; on a list that names an unbound key the model
  skips it.
\<close>

fun ports_loop :: "(string \<rightharpoonup> Port list) \<Rightarrow> string list \<Rightarrow> string list \<Rightarrow> string list" where
  "ports_loop m parts [] = parts"
| "ports_loop m parts (port # rest) =
     (case m port of
        Some bindings \<Rightarrow> ports_loop m (bindings_loop port parts bindings) rest
      | None \<Rightarrow> ports_loop m parts rest)"

text \<open>Lines 198--202: the loop over the environment.\<close>

fun env_loop :: "string list \<Rightarrow> string list \<Rightarrow> string list" where
  "env_loop parts [] = parts"
| "env_loop parts (env # rest) =
     env_loop (if \<not> shouldSkipEnv env then parts @ [''-e'', env] else parts) rest"

text \<open>
  The slice \<open>parts\<close> as it stands at line 222, before it is joined. The first argument is
  the order in which the \<open>range\<close> of line 189 visits the port bindings.
\<close>

definition generateRunCommand_parts :: "string list \<Rightarrow> ContainerInfo \<Rightarrow> string list" where
  "generateRunCommand_parts order info =
    (let parts = [];
         parts = parts @ [''docker'', ''run'', ''-d''];
         containerName = TrimPrefix (ContainerInfo.Name info) ''/'';
         parts = parts @ [''--name'', containerName];
         parts = (if RestartPolicy.Name (RestartPolicy (HostConfig info)) \<noteq> ''''
                  then parts @ [''--restart'', RestartPolicy.Name (RestartPolicy (HostConfig info))]
                  else parts);
         parts = binds_loop parts (Binds (HostConfig info));
         parts = ports_loop (PortBindings (HostConfig info)) parts order;
         parts = env_loop parts (Env (Config info));
         parts = (if Privileged (HostConfig info) then parts @ [''--privileged''] else parts);
         parts = (if PublishAllPorts (HostConfig info) then parts @ [''-P''] else parts);
         parts = (if NetworkMode (HostConfig info) \<noteq> '''' \<and> NetworkMode (HostConfig info) \<noteq> ''default''
                  then parts @ [''--network'', NetworkMode (HostConfig info)]
                  else parts);
         parts = parts @ [Image (Config info)];
         parts = (if length (Cmd (Config info)) > 0 then parts @ Cmd (Config info) else parts)
     in parts)"

definition generateRunCommand :: "string list \<Rightarrow> ContainerInfo \<Rightarrow> string" where
  "generateRunCommand order info = Join (generateRunCommand_parts order info) '' ''"

subsection \<open>The Go library functions the confirmation calls\<close>

text \<open>
  \<open>strings.ToLower\<close> and \<open>strings.TrimSpace\<close> work on bytes as long as the string is
  ASCII and fall back on the Unicode tables of the Go library otherwise. The byte paths
  are modelled as the library has them; the three Unicode fallbacks are parameters:
  \<open>strings.Map(unicode.ToLower, s)\<close>, \<open>strings.TrimFunc(s, unicode.IsSpace)\<close> and
  \<open>strings.TrimRightFunc(s, unicode.IsSpace)\<close>.
\<close>

record unicode_lib =
  Map_unicode_ToLower :: "string \<Rightarrow> string"
  TrimFunc_IsSpace :: "string \<Rightarrow> string"
  TrimRightFunc_IsSpace :: "string \<Rightarrow> string"

text \<open>\<open>utf8.RuneSelf\<close>: bytes below it are ASCII characters.\<close>

definition RuneSelf :: nat where
  "RuneSelf = 128"

definition isUpperASCII :: "char \<Rightarrow> bool" where
  "isUpperASCII c \<longleftrightarrow> (65::nat) \<le> of_char c \<and> of_char c \<le> (90::nat)"

text \<open>\<open>c += 'a' - 'A'\<close> on an upper-case ASCII letter.\<close>

definition lowerASCII :: "char \<Rightarrow> char" where
  "lowerASCII c = (if isUpperASCII c then char_of (of_char c + (32::nat)) else c)"

definition ToLower :: "unicode_lib \<Rightarrow> string \<Rightarrow> string" where
  "ToLower lib s =
     (let isASCII = list_all (\<lambda>c. of_char c < RuneSelf) s;
          hasUpper = list_ex isUpperASCII s
      in if isASCII then (if \<not> hasUpper then s else map lowerASCII s)
         else Map_unicode_ToLower lib s)"

text \<open>The table \<open>asciiSpace\<close>: tab, line feed, vertical tab, form feed, carriage return, space.\<close>

definition asciiSpace :: "char \<Rightarrow> bool" where
  "asciiSpace c \<longleftrightarrow> of_char c \<in> {9, 10, 11, 12, 13, 32 :: nat}"

text \<open>
  \<open>strings.TrimSpace\<close>: the first loop advances \<open>start\<close> over ASCII spaces, the second
  moves \<open>stop\<close> back over them; either loop hands over to the Unicode fallback at a byte
  that is not ASCII.
\<close>

definition TrimSpace :: "unicode_lib \<Rightarrow> string \<Rightarrow> string" where
  "TrimSpace lib s =
     (let t = dropWhile asciiSpace s
      in case t of
           [] \<Rightarrow> []
         | c # _ \<Rightarrow>
             if RuneSelf \<le> of_char c then TrimFunc_IsSpace lib t
             else (let u = rev (dropWhile asciiSpace (rev t))
                   in if u \<noteq> [] \<and> RuneSelf \<le> of_char (last u)
                      then TrimRightFunc_IsSpace lib u else u))"

text \<open>
  \<open>bufio.Reader.ReadString(delim)\<close> on a stream that holds the bytes \<open>input\<close> and then
  ends with the error \<open>end_err\<close> (\<open>io.EOF\<close> or a read failure): the data up to and
  including the first delimiter and no error, or, when there is no delimiter, the data
  read before the error and the error.
\<close>

definition ReadString :: "string \<Rightarrow> string \<Rightarrow> char \<Rightarrow> string \<times> string option" where
  "ReadString input end_err delim =
     (if delim \<in> set input then (takeWhile (\<lambda>c. c \<noteq> delim) input @ [delim], None)
      else (input, Some end_err))"

subsection \<open>The outside world\<close>

text \<open>
  What one run meets outside the program: the result of each external command (the error
  of \<open>Run\<close> or \<open>Output\<close>, if any), the decoder \<open>json.Unmarshal\<close> into a
  \<open>[]ContainerInfo\<close>, the bytes on standard input with the error that ends them, and the
  order in which the runtime visits the port bindings.
\<close>

record world =
  docker_inspect :: "string \<Rightarrow> string + string"
  json_Unmarshal :: "string \<Rightarrow> string + ContainerInfo list"
  docker_stop :: "string \<Rightarrow> string option"
  docker_rm :: "string \<Rightarrow> string option"
  docker_pull :: "string \<Rightarrow> string option"
  sh_c :: "string \<Rightarrow> string option"
  stdin_data :: string
  stdin_error :: string
  range_PortBindings :: "string list"

text \<open>The processes a run starts, in order: \<open>docker\<close> with its arguments, or \<open>sh -c\<close>.\<close>

datatype event = Docker "string list" | Shell string

text \<open>
  The errors made with \<open>fmt.Errorf\<close>, one constructor for each message: failed to inspect
  container, failed to parse container info, container not found, failed to stop
  container, failed to remove container, failed to pull image; each carries the
  underlying error.
\<close>

datatype error =
    QueryFailed string
  | DecodeFailed string
  | NotFound
  | StopFailed string
  | RemoveFailed string
  | PullFailed string

subsection \<open>\<open>getContainerInfo\<close> (lines 130--147)\<close>

definition getContainerInfo :: "world \<Rightarrow> string \<Rightarrow> event list \<times> (error + ContainerInfo)" where
  "getContainerInfo w containerName =
     ([Docker [''inspect'', containerName]],
      (case docker_inspect w containerName of
         Inl err \<Rightarrow> Inl (QueryFailed err)
       | Inr output \<Rightarrow>
           (case json_Unmarshal w output of
              Inl err \<Rightarrow> Inl (DecodeFailed err)
            | Inr containers \<Rightarrow>
                if length containers = 0 then Inl NotFound
                else Inr (containers ! 0))))"

subsection \<open>\<open>stopAndRemoveContainer\<close>, \<open>pullLatestImage\<close>, \<open>executeCommand\<close>\<close>

definition stopAndRemoveContainer :: "world \<Rightarrow> string \<Rightarrow> event list \<times> error option" where
  "stopAndRemoveContainer w containerName =
     (case docker_stop w containerName of
        Some err \<Rightarrow> ([Docker [''stop'', containerName]], Some (StopFailed err))
      | None \<Rightarrow>
          (case docker_rm w containerName of
             Some err \<Rightarrow>
               ([Docker [''stop'', containerName], Docker [''rm'', containerName]],
                Some (RemoveFailed err))
           | None \<Rightarrow>
               ([Docker [''stop'', containerName], Docker [''rm'', containerName]], None)))"

definition pullLatestImage :: "world \<Rightarrow> string \<Rightarrow> event list \<times> error option" where
  "pullLatestImage w imageName =
     ([Docker [''pull'', imageName]],
      (case docker_pull w imageName of
         Some err \<Rightarrow> Some (PullFailed err)
       | None \<Rightarrow> None))"

text \<open>\<open>executeCommand\<close> returns the error of \<open>cmd.Run()\<close> as it is.\<close>

definition executeCommand :: "world \<Rightarrow> string \<Rightarrow> event list \<times> string option" where
  "executeCommand w command = ([Shell command], sh_c w command)"

subsection \<open>\<open>confirmExecution\<close> (lines 242--253)\<close>

definition confirmExecution :: "unicode_lib \<Rightarrow> world \<Rightarrow> bool" where
  "confirmExecution lib w =
     (case ReadString (stdin_data w) (stdin_error w) (CHR 0x0A) of
        (response, Some err) \<Rightarrow> False
      | (response, None) \<Rightarrow>
          (let response = TrimSpace lib (ToLower lib response)
           in response = ''y'' \<or> response = ''yes''))"

subsection \<open>\<open>main\<close> (lines 86--128)\<close>

text \<open>
  The run as a function of the argument vector \<open>os.Args\<close> and the world: the processes
  started and the exit status. \<open>log.Fatal\<close> and \<open>os.Exit(1)\<close> end the run with status 1,
  returning from \<open>main\<close> ends it with status 0. What the run prints is left out.
\<close>

definition main :: "unicode_lib \<Rightarrow> world \<Rightarrow> string list \<Rightarrow> event list \<times> int" where
  "main lib w args =
     (if length args < 2 then ([], 1)
      else
        (let containerName = args ! 1;
             (ev1, r1) = getContainerInfo w containerName
         in case r1 of
              Inl err \<Rightarrow> (ev1, 1)
            | Inr containerInfo \<Rightarrow>
                (let imageName = Image (Config containerInfo);
                     (ev2, r2) = stopAndRemoveContainer w containerName
                 in case r2 of
                      Some err \<Rightarrow> (ev1 @ ev2, 1)
                    | None \<Rightarrow>
                        (let (ev3, r3) = pullLatestImage w imageName
                         in case r3 of
                              Some err \<Rightarrow> (ev1 @ ev2 @ ev3, 1)
                            | None \<Rightarrow>
                                (let runCommand =
                                       generateRunCommand (range_PortBindings w) containerInfo
                                 in if \<not> confirmExecution lib w then (ev1 @ ev2 @ ev3, 0)
                                    else
                                      (let (ev4, r4) = executeCommand w runCommand
                                       in case r4 of
                                            Some err \<Rightarrow> (ev1 @ ev2 @ ev3 @ ev4, 1)
                                          | None \<Rightarrow> (ev1 @ ev2 @ ev3 @ ev4, 0)))))))"

section \<open>The specification's own words\<close>

text \<open>
  Definitions that follow the specification, to be compared with the code above.
  The identity value: the name with one leading path separator stripped.
\<close>

definition spec_strip_separator :: "string \<Rightarrow> string" where
  "spec_strip_separator n = (case n of [] \<Rightarrow> [] | c # cs \<Rightarrow> if c = CHR ''/'' then cs else n)"

text \<open>The key of an environment entry \<open>KEY=VALUE\<close>: what stands before the first \<open>=\<close>.\<close>

definition spec_env_key :: "string \<Rightarrow> string option" where
  "spec_env_key e =
     (if CHR ''='' \<in> set e then Some (takeWhile (\<lambda>c. c \<noteq> CHR ''='') e) else None)"

text \<open>An entry is on the deny-list when its key is exactly one of the four.\<close>

definition spec_deny_listed :: "string \<Rightarrow> bool" where
  "spec_deny_listed e =
     (case spec_env_key e of
        None \<Rightarrow> False
      | Some k \<Rightarrow> k \<in> set [''PATH'', ''HOSTNAME'', ''HOME'', ''TERM''])"

text \<open>
  The descriptor of the end-to-end example. The specification leaves the host interface
  of the binding, the retry count and the network settings open.
\<close>

definition spec_example :: "string \<Rightarrow> int \<Rightarrow> (string \<rightharpoonup> NetworkInfo) \<Rightarrow> ContainerInfo" where
  "spec_example ip retries nets =
     \<lparr>Config = \<lparr>Image = ''app:latest'', Cmd = [''serve''], Env = [''PATH=/usr/bin'', ''KEY=1'']\<rparr>,
      HostConfig =
        \<lparr>Binds = [''/data:/data''],
         PortBindings = [''80/tcp'' \<mapsto> [\<lparr>HostIP = ip, HostPort = ''8080''\<rparr>]],
         RestartPolicy = \<lparr>RestartPolicy.Name = ''always'', MaximumRetryCount = retries\<rparr>,
         NetworkMode = ''default'', Privileged = False, PublishAllPorts = False\<rparr>,
      NetworkSettings = \<lparr>Networks = nets\<rparr>,
      Name = ''/app''\<rparr>"

text \<open>A container that publishes two ports, each on one host port.\<close>

definition two_ports_example :: ContainerInfo where
  "two_ports_example =
     \<lparr>Config = \<lparr>Image = ''app:latest'', Cmd = [], Env = []\<rparr>,
      HostConfig =
        \<lparr>Binds = [],
         PortBindings = [''80/tcp'' \<mapsto> [\<lparr>HostIP = '''', HostPort = ''8080''\<rparr>],
                         ''443/tcp'' \<mapsto> [\<lparr>HostIP = '''', HostPort = ''8443''\<rparr>]],
         RestartPolicy = \<lparr>RestartPolicy.Name = '''', MaximumRetryCount = 0\<rparr>,
         NetworkMode = '''', Privileged = False, PublishAllPorts = False\<rparr>,
      NetworkSettings = \<lparr>Networks = Map.empty\<rparr>,
      Name = ''/app''\<rparr>"

text \<open>
  A container with two port keys of which only one is published: the bindings of
  \<open>443/tcp\<close> have an empty host port.
\<close>

definition one_published_example :: ContainerInfo where
  "one_published_example =
     \<lparr>Config = \<lparr>Image = ''app:latest'', Cmd = [], Env = []\<rparr>,
      HostConfig =
        \<lparr>Binds = [],
         PortBindings = [''80/tcp'' \<mapsto> [\<lparr>HostIP = '''', HostPort = ''8080''\<rparr>],
                         ''443/tcp'' \<mapsto> [\<lparr>HostIP = '''', HostPort = ''''\<rparr>]],
         RestartPolicy = \<lparr>RestartPolicy.Name = '''', MaximumRetryCount = 0\<rparr>,
         NetworkMode = '''', Privileged = False, PublishAllPorts = False\<rparr>,
      NetworkSettings = \<lparr>Networks = Map.empty\<rparr>,
      Name = ''/app''\<rparr>"

text \<open>
  The publish flags of one container port: one flag \<open>hostPort:containerPortSpec\<close> for
  each host binding with a non-empty host port, none for the others.
\<close>

definition spec_publish_flags :: "string \<Rightarrow> Port list \<Rightarrow> string list" where
  "spec_publish_flags port bindings =
     concat (map (\<lambda>binding. if HostPort binding = '''' then []
                              else [''-p'', HostPort binding @ '':'' @ port]) bindings)"

text \<open>
  The response as it is compared: lower-cased, then with the white space at both ends
  removed. On a response of ASCII bytes this is all that \<open>ToLower\<close> and \<open>TrimSpace\<close> do.
\<close>

definition spec_trim_lower :: "string \<Rightarrow> string" where
  "spec_trim_lower s = rev (dropWhile asciiSpace (rev (dropWhile asciiSpace (map lowerASCII s))))"

text \<open>
  An instance of the Unicode fallbacks, and a world in which every external command
  succeeds, the daemon reports two containers and the operator types the given bytes.
\<close>

definition quiet_lib :: unicode_lib where
  "quiet_lib =
     \<lparr>Map_unicode_ToLower = (\<lambda>s. s), TrimFunc_IsSpace = (\<lambda>s. s),
      TrimRightFunc_IsSpace = (\<lambda>s. s)\<rparr>"

definition example_world :: "string \<Rightarrow> world" where
  "example_world typed =
     \<lparr>docker_inspect = (\<lambda>n. Inr ''[{...}, {...}]''),
      json_Unmarshal = (\<lambda>out. Inr [spec_example ''0.0.0.0'' 0 Map.empty, two_ports_example]),
      docker_stop = (\<lambda>n. None),
      docker_rm = (\<lambda>n. None),
      docker_pull = (\<lambda>n. None),
      sh_c = (\<lambda>c. None),
      stdin_data = typed,
      stdin_error = ''EOF'',
      range_PortBindings = [''80/tcp'']\<rparr>"

text \<open>
  A container with two published ports; the arguments are the fields the synthesizer
  does not read: the host interface of the bindings, the retry count, the networks.
\<close>

definition two_ports_variant :: "string \<Rightarrow> int \<Rightarrow> (string \<rightharpoonup> NetworkInfo) \<Rightarrow> ContainerInfo" where
  "two_ports_variant ip retries nets =
     \<lparr>Config = \<lparr>Image = ''app:latest'', Cmd = [], Env = []\<rparr>,
      HostConfig =
        \<lparr>Binds = [],
         PortBindings = [''80/tcp'' \<mapsto> [\<lparr>HostIP = ip, HostPort = ''8080''\<rparr>],
                         ''443/tcp'' \<mapsto> [\<lparr>HostIP = ip, HostPort = ''8443''\<rparr>]],
         RestartPolicy = \<lparr>RestartPolicy.Name = ''always'', MaximumRetryCount = retries\<rparr>,
         NetworkMode = '''', Privileged = False, PublishAllPorts = False\<rparr>,
      NetworkSettings = \<lparr>Networks = nets\<rparr>,
      Name = ''/app''\<rparr>"

section \<open>The loops in closed form\<close>

text \<open>Each loop appends to \<open>parts\<close>; what it appends does not depend on \<open>parts\<close>.\<close>

lemma binds_loop_closed: "binds_loop parts bs = parts @ concat (map (\<lambda>b. [''-v'', b]) bs)"
  by (induction bs arbitrary: parts) simp_all

lemma bindings_loop_closed:
  "bindings_loop port parts bs =
     parts @ concat (map (\<lambda>b. if HostPort b = '''' then [] else [''-p'', HostPort b @ '':'' @ port]) bs)"
  by (induction bs arbitrary: parts) (simp_all add: Sprintf_s_colon_s_def)

lemma ports_loop_closed:
  "ports_loop m parts ks =
     parts @ concat (map (\<lambda>k. case m k of None \<Rightarrow> [] | Some bs \<Rightarrow> bindings_loop k [] bs) ks)"
proof (induction ks arbitrary: parts)
  case Nil
  show ?case by simp
next
  case (Cons k ks)
  show ?case
  proof (cases "m k")
    case None
    then show ?thesis using Cons.IH [of parts] by simp
  next
    case (Some bs)
    have "bindings_loop k parts bs = parts @ bindings_loop k [] bs"
      by (simp add: bindings_loop_closed)
    then show ?thesis using Some Cons.IH [of "bindings_loop k parts bs"] by simp
  qed
qed

lemma env_loop_closed:
  "env_loop parts es = parts @ concat (map (\<lambda>e. [''-e'', e]) (filter (\<lambda>e. \<not> shouldSkipEnv e) es))"
  by (induction es arbitrary: parts) simp_all

text \<open>The token list of the command, block by block in the order of the source.\<close>

lemma parts_layout:
  "generateRunCommand_parts order info =
     [''docker'', ''run'', ''-d'', ''--name'', TrimPrefix (ContainerInfo.Name info) ''/'']
     @ (if RestartPolicy.Name (RestartPolicy (HostConfig info)) = '''' then []
        else [''--restart'', RestartPolicy.Name (RestartPolicy (HostConfig info))])
     @ concat (map (\<lambda>b. [''-v'', b]) (Binds (HostConfig info)))
     @ concat (map (\<lambda>k. case PortBindings (HostConfig info) k of
                            None \<Rightarrow> [] | Some bs \<Rightarrow> bindings_loop k [] bs) order)
     @ concat (map (\<lambda>e. [''-e'', e]) (filter (\<lambda>e. \<not> shouldSkipEnv e) (Env (Config info))))
     @ (if Privileged (HostConfig info) then [''--privileged''] else [])
     @ (if PublishAllPorts (HostConfig info) then [''-P''] else [])
     @ (if NetworkMode (HostConfig info) = '''' \<or> NetworkMode (HostConfig info) = ''default'' then []
        else [''--network'', NetworkMode (HostConfig info)])
     @ Image (Config info) # Cmd (Config info)"
  unfolding generateRunCommand_parts_def Let_def
  by (simp add: binds_loop_closed ports_loop_closed env_loop_closed)

section \<open>From the token list to the returned string\<close>

text \<open>
  Line 222 returns the tokens joined by single spaces: the first token, then every other
  token behind a space.
\<close>

lemma Join_Cons: "Join (x # ts) sep = x @ concat (map (\<lambda>t. sep @ t) ts)"
  by (induction ts arbitrary: x) simp_all

lemma Join_middle:
  assumes "front \<noteq> []" and "rest \<noteq> []"
  shows "Join (front @ mid @ rest) sep =
           Join front sep @ concat (map (\<lambda>t. sep @ t) mid) @ sep @ Join rest sep"
proof -
  from assms obtain x xs y ys where f: "front = x # xs" and r: "rest = y # ys"
    by (cases front; cases rest) auto
  show ?thesis unfolding f r by (simp add: Join_Cons)
qed

lemma env_flags_text:
  "concat (map (\<lambda>t. sep @ t) (concat (map (\<lambda>e. [''-e'', e]) es))) =
   concat (map (\<lambda>e. sep @ ''-e'' @ sep @ e) es)"
  by (induction es) simp_all

lemma publish_flags_text:
  "concat (map (\<lambda>t. sep @ t) (spec_publish_flags port bs)) =
   concat (map (\<lambda>b. if HostPort b = '''' then []
                      else sep @ ''-p'' @ sep @ HostPort b @ '':'' @ port) bs)"
  by (induction bs) (simp_all add: spec_publish_flags_def)

lemma publish_block_text:
  "concat (map (\<lambda>t. sep @ t) (concat (map (\<lambda>port. spec_publish_flags port (f port)) ks))) =
   concat (map (\<lambda>port. concat (map (\<lambda>b. if HostPort b = '''' then []
                                              else sep @ ''-p'' @ sep @ HostPort b @ '':'' @ port)
                                 (f port))) ks)"
  by (induction ks) (simp_all add: publish_flags_text)

lemma publish_block_space:
  "concat (map (\<lambda>t. '' '' @ t) (concat (map (\<lambda>port. spec_publish_flags port (f port)) ks))) =
   concat (map (\<lambda>port. concat (map (\<lambda>b. if HostPort b = '''' then []
                                              else '' -p '' @ HostPort b @ '':'' @ port)
                                 (f port))) ks)"
proof -
  have eq: "(\<lambda>b. if HostPort b = '''' then [] else '' '' @ ''-p'' @ '' '' @ HostPort b @ '':'' @ port) =
            (\<lambda>b. if HostPort b = '''' then [] else '' -p '' @ HostPort b @ '':'' @ port)" for port
    by (rule ext) simp
  show ?thesis unfolding publish_block_text eq ..
qed

section \<open>Name normalisation\<close>

lemma TrimPrefix_separator: "TrimPrefix n ''/'' = spec_strip_separator n"
  by (cases n) (simp_all add: TrimPrefix_def HasPrefix_def spec_strip_separator_def)

text \<open>
  Claim C5. For every descriptor, the value of the identity flag \<open>--name\<close> is the container
  name with a single leading path separator stripped, and the name reaches no other token
  of the command: the name \<open>/web\<close> gives the value \<open>web\<close>, and the name \<open>web\<close> gives \<open>web\<close>
  unchanged. The returned string starts with \<open>docker run -d --name\<close>, a space and that
  value, and what follows does not depend on the name.
\<close>

theorem name_flag_strips_one_separator:
  "generateRunCommand_parts order (info\<lparr>ContainerInfo.Name := n\<rparr>) =
     [''docker'', ''run'', ''-d'', ''--name'', spec_strip_separator n]
     @ drop 5 (generateRunCommand_parts order info)
   \<and> generateRunCommand order (info\<lparr>ContainerInfo.Name := n\<rparr>) =
     ''docker run -d --name '' @ spec_strip_separator n @ '' ''
     @ Join (drop 5 (generateRunCommand_parts order info)) '' ''
   \<and> take 5 (generateRunCommand_parts order (info\<lparr>ContainerInfo.Name := ''/web''\<rparr>)) =
     [''docker'', ''run'', ''-d'', ''--name'', ''web'']
   \<and> take 5 (generateRunCommand_parts order (info\<lparr>ContainerInfo.Name := ''web''\<rparr>)) =
     [''docker'', ''run'', ''-d'', ''--name'', ''web'']
   \<and> generateRunCommand order (info\<lparr>ContainerInfo.Name := ''/web''\<rparr>) =
     ''docker run -d --name web '' @ Join (drop 5 (generateRunCommand_parts order info)) '' ''
   \<and> generateRunCommand order (info\<lparr>ContainerInfo.Name := ''web''\<rparr>) =
     ''docker run -d --name web '' @ Join (drop 5 (generateRunCommand_parts order info)) '' ''"
proof -
  have tail: "drop 5 (generateRunCommand_parts order (info\<lparr>ContainerInfo.Name := m\<rparr>)) =
              drop 5 (generateRunCommand_parts order info)" for m
    by (simp add: parts_layout)
  have head: "take 5 (generateRunCommand_parts order (info\<lparr>ContainerInfo.Name := m\<rparr>)) =
              [''docker'', ''run'', ''-d'', ''--name'', spec_strip_separator m]" for m
    by (simp add: parts_layout TrimPrefix_separator)
  have parts: "generateRunCommand_parts order (info\<lparr>ContainerInfo.Name := m\<rparr>) =
     [''docker'', ''run'', ''-d'', ''--name'', spec_strip_separator m]
     @ drop 5 (generateRunCommand_parts order info)" for m
    using append_take_drop_id [of 5 "generateRunCommand_parts order (info\<lparr>ContainerInfo.Name := m\<rparr>)"]
    unfolding head tail by simp
  have ne: "drop 5 (generateRunCommand_parts order info) \<noteq> []"
    by (simp add: parts_layout)
  have str: "generateRunCommand order (info\<lparr>ContainerInfo.Name := m\<rparr>) =
     ''docker run -d --name '' @ spec_strip_separator m @ '' ''
     @ Join (drop 5 (generateRunCommand_parts order info)) '' ''" for m
  proof -
    have "Join ([''docker'', ''run'', ''-d'', ''--name'', spec_strip_separator m] @ []
            @ drop 5 (generateRunCommand_parts order info)) '' '' =
          Join [''docker'', ''run'', ''-d'', ''--name'', spec_strip_separator m] '' ''
          @ concat (map (\<lambda>t. '' '' @ t) []) @ '' ''
          @ Join (drop 5 (generateRunCommand_parts order info)) '' ''"
      by (rule Join_middle) (simp, rule ne)
    then show ?thesis unfolding generateRunCommand_def parts by simp
  qed
  have web1: "spec_strip_separator ''/web'' = ''web''" by (simp add: spec_strip_separator_def)
  have web2: "spec_strip_separator ''web'' = ''web''" by (simp add: spec_strip_separator_def)
  show ?thesis
    using parts [of n] str [of n] head [of "''/web''"] head [of "''web''"]
      str [of "''/web''"] str [of "''web''"]
    unfolding web1 web2 by simp
qed

section \<open>Restart policy\<close>

text \<open>
  Claim C7. For every descriptor, an empty restart-policy name gives no restart flag, and
  a non-empty name gives exactly one restart flag, right after the identity flag, whose
  value is the policy name alone; this holds for every retry count, which never appears
  in the command and never changes it. In the returned string the flag is the text
  \<open>--restart\<close>, a space and the name, right behind the identity value.
\<close>

theorem restart_flag_is_policy_name_alone:
  "\<exists>rest. rest \<noteq> [] \<and> (\<forall>n c.
     generateRunCommand_parts order
       (info\<lparr>HostConfig := (HostConfig info)\<lparr>RestartPolicy :=
          \<lparr>RestartPolicy.Name = n, MaximumRetryCount = c\<rparr>\<rparr>\<rparr>) =
       [''docker'', ''run'', ''-d'', ''--name'', TrimPrefix (ContainerInfo.Name info) ''/'']
       @ (if n = '''' then [] else [''--restart'', n])
       @ rest
     \<and> generateRunCommand order
       (info\<lparr>HostConfig := (HostConfig info)\<lparr>RestartPolicy :=
          \<lparr>RestartPolicy.Name = n, MaximumRetryCount = c\<rparr>\<rparr>\<rparr>) =
       ''docker run -d --name '' @ TrimPrefix (ContainerInfo.Name info) ''/''
       @ (if n = '''' then [] else '' --restart '' @ n)
       @ '' '' @ Join rest '' '')"
proof -
  define rest where "rest = drop 5 (generateRunCommand_parts order
        (info\<lparr>HostConfig := (HostConfig info)\<lparr>RestartPolicy :=
          \<lparr>RestartPolicy.Name = [], MaximumRetryCount = 0\<rparr>\<rparr>\<rparr>))"
  let ?front = "[''docker'', ''run'', ''-d'', ''--name'', TrimPrefix (ContainerInfo.Name info) ''/'']"
  have r: "rest \<noteq> []" by (simp add: rest_def parts_layout)
  have parts: "generateRunCommand_parts order
       (info\<lparr>HostConfig := (HostConfig info)\<lparr>RestartPolicy :=
          \<lparr>RestartPolicy.Name = n, MaximumRetryCount = c\<rparr>\<rparr>\<rparr>) =
       ?front @ (if n = '''' then [] else [''--restart'', n]) @ rest" for n c
    by (simp add: rest_def parts_layout)
  have str: "generateRunCommand order
       (info\<lparr>HostConfig := (HostConfig info)\<lparr>RestartPolicy :=
          \<lparr>RestartPolicy.Name = n, MaximumRetryCount = c\<rparr>\<rparr>\<rparr>) =
       ''docker run -d --name '' @ TrimPrefix (ContainerInfo.Name info) ''/''
       @ (if n = '''' then [] else '' --restart '' @ n)
       @ '' '' @ Join rest '' ''" for n c
  proof -
    have "Join (?front @ (if n = '''' then [] else [''--restart'', n]) @ rest) '' '' =
          Join ?front '' '' @ concat (map (\<lambda>t. '' '' @ t) (if n = '''' then [] else [''--restart'', n]))
          @ '' '' @ Join rest '' ''"
      by (rule Join_middle) (simp_all add: r)
    then show ?thesis unfolding generateRunCommand_def parts by simp
  qed
  from r parts str show ?thesis by blast
qed

section \<open>Network mode\<close>

text \<open>
  Claim C6. For every descriptor, a network mode equal to the empty string or to the
  sentinel \<open>default\<close> gives no network flag, and any other network mode (\<open>bridge2\<close>, say)
  gives exactly one network flag carrying that value, right before the image; the rest
  of the command does not depend on the network mode. In the returned string the flag is
  the text \<open>--network\<close>, a space and the value, between what stands before it and the
  image with its arguments.
\<close>

theorem network_flag_unless_empty_or_default:
  "\<exists>front. front \<noteq> [] \<and> (\<forall>m.
     generateRunCommand_parts order (info\<lparr>HostConfig := (HostConfig info)\<lparr>NetworkMode := m\<rparr>\<rparr>) =
       front
       @ (if m = '''' \<or> m = ''default'' then [] else [''--network'', m])
       @ Image (Config info) # Cmd (Config info)
     \<and> generateRunCommand order (info\<lparr>HostConfig := (HostConfig info)\<lparr>NetworkMode := m\<rparr>\<rparr>) =
       Join front '' ''
       @ (if m = '''' \<or> m = ''default'' then [] else '' --network '' @ m)
       @ '' '' @ Join (Image (Config info) # Cmd (Config info)) '' '')"
proof -
  define front where "front = butlast (generateRunCommand_parts order
        (info\<lparr>Config := (Config info)\<lparr>Cmd := []\<rparr>,
              HostConfig := (HostConfig info)\<lparr>NetworkMode := []\<rparr>\<rparr>))"
  have f: "front \<noteq> []" by (simp add: front_def parts_layout butlast_append)
  have parts: "generateRunCommand_parts order (info\<lparr>HostConfig := (HostConfig info)\<lparr>NetworkMode := m\<rparr>\<rparr>) =
       front @ (if m = '''' \<or> m = ''default'' then [] else [''--network'', m])
       @ Image (Config info) # Cmd (Config info)" for m
    by (simp add: front_def parts_layout butlast_append)
  have str: "generateRunCommand order (info\<lparr>HostConfig := (HostConfig info)\<lparr>NetworkMode := m\<rparr>\<rparr>) =
       Join front '' ''
       @ (if m = '''' \<or> m = ''default'' then [] else '' --network '' @ m)
       @ '' '' @ Join (Image (Config info) # Cmd (Config info)) '' ''" for m
  proof -
    have "Join (front @ (if m = '''' \<or> m = ''default'' then [] else [''--network'', m])
            @ Image (Config info) # Cmd (Config info)) '' '' =
          Join front '' ''
          @ concat (map (\<lambda>t. '' '' @ t) (if m = '''' \<or> m = ''default'' then [] else [''--network'', m]))
          @ '' '' @ Join (Image (Config info) # Cmd (Config info)) '' ''"
      by (rule Join_middle) (simp_all add: f)
    then show ?thesis unfolding generateRunCommand_def parts by simp
  qed
  from f parts str show ?thesis by blast
qed

section \<open>Environment deny-list\<close>

lemma HasPrefix_iff: "HasPrefix s p \<longleftrightarrow> (\<exists>r. s = p @ r)"
proof
  assume "HasPrefix s p"
  then have "s = p @ drop (length p) s"
    unfolding HasPrefix_def by (metis append_take_drop_id)
  then show "\<exists>r. s = p @ r" ..
next
  assume "\<exists>r. s = p @ r"
  then show "HasPrefix s p" by (auto simp: HasPrefix_def)
qed

text \<open>Having the prefix \<open>KEY=\<close> is having the key \<open>KEY\<close>.\<close>

lemma HasPrefix_key:
  assumes "CHR ''='' \<notin> set k"
  shows "HasPrefix e (k @ ''='') \<longleftrightarrow> spec_env_key e = Some k"
proof
  assume "HasPrefix e (k @ ''='')"
  then obtain r where e: "e = k @ CHR ''='' # r" by (auto simp: HasPrefix_iff)
  have "takeWhile (\<lambda>c. c \<noteq> CHR ''='') e = k"
    unfolding e using assms by (subst takeWhile_append2) auto
  moreover have "CHR ''='' \<in> set e" unfolding e by simp
  ultimately show "spec_env_key e = Some k" by (simp add: spec_env_key_def)
next
  assume "spec_env_key e = Some k"
  then have mem: "CHR ''='' \<in> set e" and k: "takeWhile (\<lambda>c. c \<noteq> CHR ''='') e = k"
    by (auto simp: spec_env_key_def split: if_splits)
  let ?d = "dropWhile (\<lambda>c. c \<noteq> CHR ''='') e"
  from mem have ne: "?d \<noteq> []" by (auto simp: dropWhile_eq_Nil_conv)
  then have "hd ?d = CHR ''=''" using hd_dropWhile [of "\<lambda>c. c \<noteq> CHR ''=''" e] by simp
  with ne have "?d = CHR ''='' # tl ?d" by (cases ?d) simp_all
  then have "e = k @ CHR ''='' # tl ?d"
    using takeWhile_dropWhile_id [of "\<lambda>c. c \<noteq> CHR ''=''" e] k by metis
  then show "HasPrefix e (k @ ''='')" by (auto simp: HasPrefix_iff)
qed

lemma shouldSkipEnv_deny_listed: "shouldSkipEnv e \<longleftrightarrow> spec_deny_listed e"
proof -
  have 1: "HasPrefix e ''PATH='' \<longleftrightarrow> spec_env_key e = Some ''PATH''"
    using HasPrefix_key [of "''PATH''" e] by simp
  have 2: "HasPrefix e ''HOSTNAME='' \<longleftrightarrow> spec_env_key e = Some ''HOSTNAME''"
    using HasPrefix_key [of "''HOSTNAME''" e] by simp
  have 3: "HasPrefix e ''HOME='' \<longleftrightarrow> spec_env_key e = Some ''HOME''"
    using HasPrefix_key [of "''HOME''" e] by simp
  have 4: "HasPrefix e ''TERM='' \<longleftrightarrow> spec_env_key e = Some ''TERM''"
    using HasPrefix_key [of "''TERM''" e] by simp
  show ?thesis
    unfolding shouldSkipEnv_def skipPatterns_def spec_deny_listed_def
    by (cases "spec_env_key e") (auto simp: 1 2 3 4)
qed

text \<open>The match is exact and case-sensitive, and an entry without \<open>=\<close> has no key.\<close>

lemma shouldSkipEnv_examples:
  "shouldSkipEnv ''PATH=/usr/bin''" "shouldSkipEnv ''HOSTNAME=''" "shouldSkipEnv ''HOME=/root''"
  "shouldSkipEnv ''TERM=xterm''" "\<not> shouldSkipEnv ''path=/usr/bin''"
  "\<not> shouldSkipEnv ''PATHS=1''" "\<not> shouldSkipEnv ''PATH''" "\<not> shouldSkipEnv ''KEY=1''"
  by (simp_all add: shouldSkipEnv_def skipPatterns_def HasPrefix_def)

text \<open>
  Claim C3. For every descriptor, the environment contributes one block of the command:
  an entry whose key is exactly one of \<open>PATH\<close>, \<open>HOSTNAME\<close>, \<open>HOME\<close>, \<open>TERM\<close> (the entry
  starts with the key and \<open>=\<close>, case-sensitively) gives no environment flag, and every
  other entry gives the flag \<open>-e\<close> with the entry verbatim, in descriptor order. What
  stands before and after the block does not depend on the environment. In the returned
  string the block is, for each entry that is kept, a space, \<open>-e\<close>, a space and the entry.
\<close>

theorem env_flags_skip_deny_list:
  "\<exists>front rest. front \<noteq> [] \<and> rest \<noteq> [] \<and> (\<forall>envs.
     generateRunCommand_parts order (info\<lparr>Config := (Config info)\<lparr>Env := envs\<rparr>\<rparr>) =
       front
       @ concat (map (\<lambda>e. [''-e'', e]) (filter (\<lambda>e. \<not> spec_deny_listed e) envs))
       @ rest
     \<and> generateRunCommand order (info\<lparr>Config := (Config info)\<lparr>Env := envs\<rparr>\<rparr>) =
       Join front '' ''
       @ concat (map (\<lambda>e. '' -e '' @ e) (filter (\<lambda>e. \<not> spec_deny_listed e) envs))
       @ '' '' @ Join rest '' '')"
proof -
  define front where "front = [''docker'', ''run'', ''-d'', ''--name'', TrimPrefix (ContainerInfo.Name info) ''/'']
     @ (if RestartPolicy.Name (RestartPolicy (HostConfig info)) = '''' then []
        else [''--restart'', RestartPolicy.Name (RestartPolicy (HostConfig info))])
     @ concat (map (\<lambda>b. [''-v'', b]) (Binds (HostConfig info)))
     @ concat (map (\<lambda>k. case PortBindings (HostConfig info) k of
                            None \<Rightarrow> [] | Some bs \<Rightarrow> bindings_loop k [] bs) order)"
  define rest where "rest = (if Privileged (HostConfig info) then [''--privileged''] else [])
     @ (if PublishAllPorts (HostConfig info) then [''-P''] else [])
     @ (if NetworkMode (HostConfig info) = '''' \<or> NetworkMode (HostConfig info) = ''default'' then []
        else [''--network'', NetworkMode (HostConfig info)])
     @ Image (Config info) # Cmd (Config info)"
  have f: "front \<noteq> []" by (simp add: front_def)
  have r: "rest \<noteq> []" by (simp add: rest_def)
  have parts: "generateRunCommand_parts order (info\<lparr>Config := (Config info)\<lparr>Env := envs\<rparr>\<rparr>) =
     front @ concat (map (\<lambda>e. [''-e'', e]) (filter (\<lambda>e. \<not> spec_deny_listed e) envs)) @ rest"
    for envs
    by (simp add: parts_layout shouldSkipEnv_deny_listed front_def rest_def)
  have str: "generateRunCommand order (info\<lparr>Config := (Config info)\<lparr>Env := envs\<rparr>\<rparr>) =
       Join front '' ''
       @ concat (map (\<lambda>e. '' -e '' @ e) (filter (\<lambda>e. \<not> spec_deny_listed e) envs))
       @ '' '' @ Join rest '' ''" for envs
    unfolding generateRunCommand_def parts Join_middle [OF f r] env_flags_text by simp
  from f r parts str show ?thesis by blast
qed

section \<open>The end-to-end example\<close>

lemma range_order_singleton: "range_order [k \<mapsto> v] ks \<longleftrightarrow> ks = [k]"
proof
  assume "range_order [k \<mapsto> v] ks"
  then have d: "distinct ks" and s: "set ks = {k}" by (simp_all add: range_order_def)
  from s obtain x xs where ks: "ks = x # xs" by (cases ks) auto
  with s have "x = k" by auto
  moreover from d s ks have "xs = []" by (cases xs) auto
  ultimately show "ks = [k]" using ks by simp
next
  assume "ks = [k]"
  then show "range_order [k \<mapsto> v] ks" by (simp add: range_order_def)
qed

text \<open>
  Claim C2. The descriptor of the end-to-end example (name \<open>/app\<close>, image \<open>app:latest\<close>,
  one bind \<open>/data:/data\<close>, environment \<open>PATH=/usr/bin\<close> and \<open>KEY=1\<close>, port \<open>80/tcp\<close>
  bound to host port 8080, restart policy \<open>always\<close>, not privileged, not publishing all
  ports, network mode \<open>default\<close>, command \<open>serve\<close>) gives, in whatever order the port
  map is visited, exactly the tokens
  \<open>docker run -d --name app --restart always -v /data:/data -p 8080:80/tcp -e KEY=1
  app:latest serve\<close>, joined by single spaces.
\<close>

theorem end_to_end_example:
  assumes "range_order (PortBindings (HostConfig (spec_example ip retries nets))) order"
  shows "generateRunCommand_parts order (spec_example ip retries nets) =
           [''docker'', ''run'', ''-d'', ''--name'', ''app'', ''--restart'', ''always'',
            ''-v'', ''/data:/data'', ''-p'', ''8080:80/tcp'', ''-e'', ''KEY=1'',
            ''app:latest'', ''serve'']
       \<and> generateRunCommand order (spec_example ip retries nets) =
           ''docker run -d --name app --restart always -v /data:/data -p 8080:80/tcp -e KEY=1 app:latest serve''"
proof -
  from assms have order: "order = [''80/tcp'']"
    by (simp add: spec_example_def range_order_singleton)
  have parts: "generateRunCommand_parts [''80/tcp''] (spec_example ip retries nets) =
           [''docker'', ''run'', ''-d'', ''--name'', ''app'', ''--restart'', ''always'',
            ''-v'', ''/data:/data'', ''-p'', ''8080:80/tcp'', ''-e'', ''KEY=1'',
            ''app:latest'', ''serve'']"
    by (simp add: generateRunCommand_parts_def spec_example_def TrimPrefix_def HasPrefix_def
          shouldSkipEnv_def skipPatterns_def Sprintf_s_colon_s_def)
  show ?thesis unfolding order generateRunCommand_def parts by (simp add: parts)
qed

theorem end_to_end_example_witness:
  "range_order (PortBindings (HostConfig (spec_example ''0.0.0.0'' 0 Map.empty))) [''80/tcp'']
   \<and> generateRunCommand [''80/tcp''] (spec_example ''0.0.0.0'' 0 Map.empty) =
       ''docker run -d --name app --restart always -v /data:/data -p 8080:80/tcp -e KEY=1 app:latest serve''"
proof -
  have h: "range_order (PortBindings (HostConfig (spec_example ''0.0.0.0'' 0 Map.empty))) [''80/tcp'']"
    by (simp add: spec_example_def range_order_def)
  show ?thesis using h end_to_end_example [OF h] by simp
qed

section \<open>Determinism and the order of the port map\<close>

lemma concat_map_single:
  assumes "distinct ks" and "\<And>k. k \<in> set ks \<Longrightarrow> k \<noteq> k0 \<Longrightarrow> f k = []"
  shows "concat (map f ks) = (if k0 \<in> set ks then f k0 else [])"
  using assms by (induction ks) auto

lemma concat_map_all_empty:
  assumes "\<And>k. k \<in> set ks \<Longrightarrow> f k = []"
  shows "concat (map f ks) = []"
  using assms by (induction ks) auto

lemma bindings_loop_nonempty:
  "bindings_loop k [] bs \<noteq> [] \<Longrightarrow> \<exists>b\<in>set bs. HostPort b \<noteq> ''''"
  by (auto simp: bindings_loop_closed split: if_splits)

text \<open>
  Claim C1, as stated, fails: the same descriptor with two published ports gives two
  different commands, one for each order in which the runtime may visit the two keys.
\<close>

theorem two_ports_two_outputs:
  "range_order (PortBindings (HostConfig two_ports_example)) [''80/tcp'', ''443/tcp'']
   \<and> range_order (PortBindings (HostConfig two_ports_example)) [''443/tcp'', ''80/tcp'']
   \<and> generateRunCommand [''80/tcp'', ''443/tcp''] two_ports_example =
       ''docker run -d --name app -p 8080:80/tcp -p 8443:443/tcp app:latest''
   \<and> generateRunCommand [''443/tcp'', ''80/tcp''] two_ports_example =
       ''docker run -d --name app -p 8443:443/tcp -p 8080:80/tcp app:latest''
   \<and> generateRunCommand [''80/tcp'', ''443/tcp''] two_ports_example \<noteq>
       generateRunCommand [''443/tcp'', ''80/tcp''] two_ports_example"
proof -
  have 1: "generateRunCommand [''80/tcp'', ''443/tcp''] two_ports_example =
       ''docker run -d --name app -p 8080:80/tcp -p 8443:443/tcp app:latest''"
    by (simp add: generateRunCommand_def generateRunCommand_parts_def two_ports_example_def
          TrimPrefix_def HasPrefix_def Sprintf_s_colon_s_def)
  have 2: "generateRunCommand [''443/tcp'', ''80/tcp''] two_ports_example =
       ''docker run -d --name app -p 8443:443/tcp -p 8080:80/tcp app:latest''"
    by (simp add: generateRunCommand_def generateRunCommand_parts_def two_ports_example_def
          TrimPrefix_def HasPrefix_def Sprintf_s_colon_s_def)
  have 3: "range_order (PortBindings (HostConfig two_ports_example)) [''80/tcp'', ''443/tcp'']"
    by (auto simp: range_order_def two_ports_example_def)
  have 4: "range_order (PortBindings (HostConfig two_ports_example)) [''443/tcp'', ''80/tcp'']"
    by (auto simp: range_order_def two_ports_example_def)
  show ?thesis unfolding 1 2 using 3 4 by simp
qed

text \<open>
  Claim C1, amended. For every descriptor in which at most one container-port key has a
  host binding with a non-empty host port (so every descriptor with at most one key),
  two calls give byte-identical output, whatever the orders in which the runtime visits
  the port map.
\<close>

theorem deterministic_with_one_published_port:
  assumes o1: "range_order (PortBindings (HostConfig info)) order1"
    and o2: "range_order (PortBindings (HostConfig info)) order2"
    and one: "\<And>k k' bs bs'.
           PortBindings (HostConfig info) k = Some bs \<Longrightarrow>
           PortBindings (HostConfig info) k' = Some bs' \<Longrightarrow>
           \<exists>b\<in>set bs. HostPort b \<noteq> '''' \<Longrightarrow>
           \<exists>b\<in>set bs'. HostPort b \<noteq> '''' \<Longrightarrow> k = k'"
  shows "generateRunCommand order1 info = generateRunCommand order2 info"
proof -
  let ?m = "PortBindings (HostConfig info)"
  let ?f = "\<lambda>k. case ?m k of None \<Rightarrow> [] | Some bs \<Rightarrow> bindings_loop k [] bs"
  have same: "concat (map ?f order1) = concat (map ?f order2)"
  proof (cases "\<exists>k. ?f k \<noteq> []")
    case False
    then show ?thesis by (simp add: concat_map_all_empty)
  next
    case True
    then obtain k0 where k0: "?f k0 \<noteq> []" ..
    then obtain bs0 where m0: "?m k0 = Some bs0" and p0: "\<exists>b\<in>set bs0. HostPort b \<noteq> ''''"
      by (auto split: option.splits dest: bindings_loop_nonempty)
    have others: "?f k = []" if "k \<noteq> k0" for k
    proof (rule ccontr)
      assume "?f k \<noteq> []"
      then obtain bs where "?m k = Some bs" "\<exists>b\<in>set bs. HostPort b \<noteq> ''''"
        by (auto split: option.splits dest: bindings_loop_nonempty)
      with one [OF this(1) m0 this(2) p0] that show False by simp
    qed
    from m0 have "k0 \<in> dom ?m" by auto
    with o1 o2 have "k0 \<in> set order1" "k0 \<in> set order2" by (simp_all add: range_order_def)
    moreover have "distinct order1" "distinct order2"
      using o1 o2 by (simp_all add: range_order_def)
    ultimately show ?thesis
      using concat_map_single [of order1 k0 ?f] concat_map_single [of order2 k0 ?f] others
      by simp
  qed
  show ?thesis unfolding generateRunCommand_def parts_layout same ..
qed

theorem deterministic_with_one_published_port_witness:
  "range_order (PortBindings (HostConfig one_published_example)) [''80/tcp'', ''443/tcp'']
   \<and> range_order (PortBindings (HostConfig one_published_example)) [''443/tcp'', ''80/tcp'']
   \<and> generateRunCommand [''80/tcp'', ''443/tcp''] one_published_example =
      generateRunCommand [''443/tcp'', ''80/tcp''] one_published_example
   \<and> generateRunCommand [''443/tcp'', ''80/tcp''] one_published_example =
      ''docker run -d --name app -p 8080:80/tcp app:latest''"
proof -
  have 1: "range_order (PortBindings (HostConfig one_published_example)) [''80/tcp'', ''443/tcp'']"
    by (auto simp: range_order_def one_published_example_def)
  have 2: "range_order (PortBindings (HostConfig one_published_example)) [''443/tcp'', ''80/tcp'']"
    by (auto simp: range_order_def one_published_example_def)
  have 3: "k = k'"
    if "PortBindings (HostConfig one_published_example) k = Some bs"
      "PortBindings (HostConfig one_published_example) k' = Some bs'"
      "\<exists>b\<in>set bs. HostPort b \<noteq> ''''" "\<exists>b\<in>set bs'. HostPort b \<noteq> ''''" for k k' bs bs'
    using that by (auto simp: one_published_example_def split: if_splits)
  have 4: "generateRunCommand [''443/tcp'', ''80/tcp''] one_published_example =
      ''docker run -d --name app -p 8080:80/tcp app:latest''"
    by (simp add: generateRunCommand_def generateRunCommand_parts_def one_published_example_def
          TrimPrefix_def HasPrefix_def Sprintf_s_colon_s_def)
  show ?thesis
    using 1 2 4 deterministic_with_one_published_port [OF 1 2 3] by simp
qed

section \<open>Port bindings\<close>

lemma concat_map_removeAll:
  assumes "f p = []" and "\<And>k. k \<noteq> p \<Longrightarrow> g k = f k"
  shows "concat (map f ks) = concat (map g (removeAll p ks))"
  using assms by (induction ks) auto

lemma spec_publish_flags_all_empty:
  "(\<forall>b\<in>set bs. HostPort b = '''') \<Longrightarrow> spec_publish_flags port bs = []"
  by (induction bs) (simp_all add: spec_publish_flags_def)

lemma range_order_removeAll:
  "range_order m ks \<Longrightarrow> range_order (m(p := None)) (removeAll p ks)"
  by (auto simp: range_order_def distinct_removeAll)

text \<open>
  Claim C4. For every descriptor and every order in which the port map is visited, the
  port bindings contribute one block of the command, the publish flags of each
  container port in turn: a host binding with an empty host port gives no flag, and a
  host binding with a non-empty host port gives exactly one flag \<open>-p\<close> with the value
  \<open>hostPort:containerPortSpec\<close>; in the returned string each flag is a space, \<open>-p\<close>, a
  space and that value. A container port all of whose host bindings have an empty host
  port gives no publish flag at all: the command, as token list and as returned string,
  is the one of the descriptor without that port.
\<close>

theorem publish_flags_of_bound_host_ports:
  "(\<exists>front rest. front \<noteq> [] \<and> rest \<noteq> [] \<and> (\<forall>pb order. range_order pb order \<longrightarrow>
      generateRunCommand_parts order (info\<lparr>HostConfig := (HostConfig info)\<lparr>PortBindings := pb\<rparr>\<rparr>) =
        front @ concat (map (\<lambda>port. spec_publish_flags port (the (pb port))) order) @ rest
      \<and> generateRunCommand order (info\<lparr>HostConfig := (HostConfig info)\<lparr>PortBindings := pb\<rparr>\<rparr>) =
        Join front '' ''
        @ concat (map (\<lambda>port. concat (map (\<lambda>binding.
                     if HostPort binding = '''' then []
                     else '' -p '' @ HostPort binding @ '':'' @ port) (the (pb port)))) order)
        @ '' '' @ Join rest '' ''))
   \<and> (\<forall>pb order port bindings.
        range_order pb order \<and> pb port = Some bindings \<and> (\<forall>b\<in>set bindings. HostPort b = '''') \<longrightarrow>
        range_order (pb(port := None)) (removeAll port order) \<and>
        generateRunCommand_parts order (info\<lparr>HostConfig := (HostConfig info)\<lparr>PortBindings := pb\<rparr>\<rparr>) =
        generateRunCommand_parts (removeAll port order)
          (info\<lparr>HostConfig := (HostConfig info)\<lparr>PortBindings := pb(port := None)\<rparr>\<rparr>) \<and>
        generateRunCommand order (info\<lparr>HostConfig := (HostConfig info)\<lparr>PortBindings := pb\<rparr>\<rparr>) =
        generateRunCommand (removeAll port order)
          (info\<lparr>HostConfig := (HostConfig info)\<lparr>PortBindings := pb(port := None)\<rparr>\<rparr>))"
proof (rule conjI)
  define front where "front = [''docker'', ''run'', ''-d'', ''--name'', TrimPrefix (ContainerInfo.Name info) ''/'']
     @ (if RestartPolicy.Name (RestartPolicy (HostConfig info)) = '''' then []
        else [''--restart'', RestartPolicy.Name (RestartPolicy (HostConfig info))])
     @ concat (map (\<lambda>b. [''-v'', b]) (Binds (HostConfig info)))"
  define rest where "rest = concat (map (\<lambda>e. [''-e'', e]) (filter (\<lambda>e. \<not> shouldSkipEnv e) (Env (Config info))))
     @ (if Privileged (HostConfig info) then [''--privileged''] else [])
     @ (if PublishAllPorts (HostConfig info) then [''-P''] else [])
     @ (if NetworkMode (HostConfig info) = '''' \<or> NetworkMode (HostConfig info) = ''default'' then []
        else [''--network'', NetworkMode (HostConfig info)])
     @ Image (Config info) # Cmd (Config info)"
  have f: "front \<noteq> []" by (simp add: front_def)
  have r: "rest \<noteq> []" by (simp add: rest_def)
  have parts: "generateRunCommand_parts order (info\<lparr>HostConfig := (HostConfig info)\<lparr>PortBindings := pb\<rparr>\<rparr>) =
      front @ concat (map (\<lambda>port. spec_publish_flags port (the (pb port))) order) @ rest"
    if "range_order pb order" for pb :: "string \<rightharpoonup> Port list" and order
  proof -
    have "(case pb k of None \<Rightarrow> [] | Some bs \<Rightarrow> bindings_loop k [] bs) =
          spec_publish_flags k (the (pb k))" if "k \<in> set order" for k
    proof -
      from that \<open>range_order pb order\<close> obtain bs where "pb k = Some bs"
        by (auto simp: range_order_def)
      then show ?thesis by (simp add: bindings_loop_closed spec_publish_flags_def)
    qed
    then have "map (\<lambda>k. case pb k of None \<Rightarrow> [] | Some bs \<Rightarrow> bindings_loop k [] bs) order =
          map (\<lambda>port. spec_publish_flags port (the (pb port))) order"
      by simp
    then have c: "concat (map (\<lambda>k. case pb k of None \<Rightarrow> [] | Some bs \<Rightarrow> bindings_loop k [] bs) order) =
          concat (map (\<lambda>port. spec_publish_flags port (the (pb port))) order)"
      by (rule arg_cong)
    show ?thesis by (simp add: parts_layout c front_def rest_def)
  qed
  have str: "generateRunCommand order (info\<lparr>HostConfig := (HostConfig info)\<lparr>PortBindings := pb\<rparr>\<rparr>) =
        Join front '' ''
        @ concat (map (\<lambda>port. concat (map (\<lambda>binding.
                     if HostPort binding = '''' then []
                     else '' -p '' @ HostPort binding @ '':'' @ port) (the (pb port)))) order)
        @ '' '' @ Join rest '' ''"
    if "range_order pb order" for pb :: "string \<rightharpoonup> Port list" and order
    unfolding generateRunCommand_def parts [OF that] Join_middle [OF f r] publish_block_space ..
  from f r parts str
  show "\<exists>front rest. front \<noteq> [] \<and> rest \<noteq> [] \<and> (\<forall>pb order. range_order pb order \<longrightarrow>
      generateRunCommand_parts order (info\<lparr>HostConfig := (HostConfig info)\<lparr>PortBindings := pb\<rparr>\<rparr>) =
        front @ concat (map (\<lambda>port. spec_publish_flags port (the (pb port))) order) @ rest
      \<and> generateRunCommand order (info\<lparr>HostConfig := (HostConfig info)\<lparr>PortBindings := pb\<rparr>\<rparr>) =
        Join front '' ''
        @ concat (map (\<lambda>port. concat (map (\<lambda>binding.
                     if HostPort binding = '''' then []
                     else '' -p '' @ HostPort binding @ '':'' @ port) (the (pb port)))) order)
        @ '' '' @ Join rest '' '')"
    by blast
next
  show "\<forall>pb order port bindings.
        range_order pb order \<and> pb port = Some bindings \<and> (\<forall>b\<in>set bindings. HostPort b = '''') \<longrightarrow>
        range_order (pb(port := None)) (removeAll port order) \<and>
        generateRunCommand_parts order (info\<lparr>HostConfig := (HostConfig info)\<lparr>PortBindings := pb\<rparr>\<rparr>) =
        generateRunCommand_parts (removeAll port order)
          (info\<lparr>HostConfig := (HostConfig info)\<lparr>PortBindings := pb(port := None)\<rparr>\<rparr>) \<and>
        generateRunCommand order (info\<lparr>HostConfig := (HostConfig info)\<lparr>PortBindings := pb\<rparr>\<rparr>) =
        generateRunCommand (removeAll port order)
          (info\<lparr>HostConfig := (HostConfig info)\<lparr>PortBindings := pb(port := None)\<rparr>\<rparr>)"
  proof (intro allI impI)
    fix pb :: "string \<rightharpoonup> Port list" and order port bindings
    assume a: "range_order pb order \<and> pb port = Some bindings \<and> (\<forall>b\<in>set bindings. HostPort b = '''')"
    let ?f = "\<lambda>k. case pb k of None \<Rightarrow> [] | Some bs \<Rightarrow> bindings_loop k [] bs"
    let ?g = "\<lambda>k. case (pb(port := None)) k of None \<Rightarrow> [] | Some bs \<Rightarrow> bindings_loop k [] bs"
    from a have ro: "range_order (pb(port := None)) (removeAll port order)"
      by (simp add: range_order_removeAll)
    from a have "?f port = []"
      using spec_publish_flags_all_empty [of bindings port]
      by (simp add: bindings_loop_closed spec_publish_flags_def)
    then have "concat (map ?f order) = concat (map ?g (removeAll port order))"
      by (rule concat_map_removeAll) simp
    then have p: "generateRunCommand_parts order (info\<lparr>HostConfig := (HostConfig info)\<lparr>PortBindings := pb\<rparr>\<rparr>) =
        generateRunCommand_parts (removeAll port order)
          (info\<lparr>HostConfig := (HostConfig info)\<lparr>PortBindings := pb(port := None)\<rparr>\<rparr>)"
      by (simp add: parts_layout)
    from ro p show "range_order (pb(port := None)) (removeAll port order) \<and>
        generateRunCommand_parts order (info\<lparr>HostConfig := (HostConfig info)\<lparr>PortBindings := pb\<rparr>\<rparr>) =
        generateRunCommand_parts (removeAll port order)
          (info\<lparr>HostConfig := (HostConfig info)\<lparr>PortBindings := pb(port := None)\<rparr>\<rparr>) \<and>
        generateRunCommand order (info\<lparr>HostConfig := (HostConfig info)\<lparr>PortBindings := pb\<rparr>\<rparr>) =
        generateRunCommand (removeAll port order)
          (info\<lparr>HostConfig := (HostConfig info)\<lparr>PortBindings := pb(port := None)\<rparr>\<rparr>)"
      by (simp add: generateRunCommand_def)
  qed
qed

theorem publish_flags_of_bound_host_ports_witness:
  "generateRunCommand [''443/tcp'', ''80/tcp'']
     (one_published_example\<lparr>HostConfig := (HostConfig one_published_example)\<lparr>PortBindings :=
        PortBindings (HostConfig one_published_example)\<rparr>\<rparr>) =
   generateRunCommand [''80/tcp'']
     (one_published_example\<lparr>HostConfig := (HostConfig one_published_example)\<lparr>PortBindings :=
        (PortBindings (HostConfig one_published_example))(''443/tcp'' := None)\<rparr>\<rparr>)
   \<and> generateRunCommand [''443/tcp'', ''80/tcp''] one_published_example =
       ''docker run -d --name app -p 8080:80/tcp app:latest''
   \<and> (\<exists>front rest.
        generateRunCommand [''443/tcp'', ''80/tcp'']
          (one_published_example\<lparr>HostConfig := (HostConfig one_published_example)\<lparr>PortBindings :=
             PortBindings (HostConfig one_published_example)\<rparr>\<rparr>) =
        Join front '' '' @ '' -p 8080:80/tcp'' @ '' '' @ Join rest '' '')"
proof -
  let ?pb = "PortBindings (HostConfig one_published_example)"
  let ?info = "one_published_example\<lparr>HostConfig := (HostConfig one_published_example)\<lparr>PortBindings := ?pb\<rparr>\<rparr>"
  have r: "range_order ?pb [''443/tcp'', ''80/tcp'']"
    by (auto simp: range_order_def one_published_example_def)
  have f: "concat (map (\<lambda>port. concat (map (\<lambda>binding.
                     if HostPort binding = '''' then []
                     else '' -p '' @ HostPort binding @ '':'' @ port) (the (?pb port))))
             [''443/tcp'', ''80/tcp'']) = '' -p 8080:80/tcp''"
    by (simp add: one_published_example_def)
  from publish_flags_of_bound_host_ports [of one_published_example]
  obtain front rest where "\<forall>pb order. range_order pb order \<longrightarrow>
      generateRunCommand_parts order
        (one_published_example\<lparr>HostConfig := (HostConfig one_published_example)\<lparr>PortBindings := pb\<rparr>\<rparr>) =
        front @ concat (map (\<lambda>port. spec_publish_flags port (the (pb port))) order) @ rest
      \<and> generateRunCommand order
        (one_published_example\<lparr>HostConfig := (HostConfig one_published_example)\<lparr>PortBindings := pb\<rparr>\<rparr>) =
        Join front '' ''
        @ concat (map (\<lambda>port. concat (map (\<lambda>binding.
                     if HostPort binding = '''' then []
                     else '' -p '' @ HostPort binding @ '':'' @ port) (the (pb port)))) order)
        @ '' '' @ Join rest '' ''"
    by blast
  with r have "generateRunCommand [''443/tcp'', ''80/tcp''] ?info =
        Join front '' ''
        @ concat (map (\<lambda>port. concat (map (\<lambda>binding.
                     if HostPort binding = '''' then []
                     else '' -p '' @ HostPort binding @ '':'' @ port) (the (?pb port))))
             [''443/tcp'', ''80/tcp''])
        @ '' '' @ Join rest '' ''"
    by blast
  then have block: "\<exists>front rest. generateRunCommand [''443/tcp'', ''80/tcp''] ?info =
        Join front '' '' @ '' -p 8080:80/tcp'' @ '' '' @ Join rest '' ''"
    unfolding f by blast
  have h: "range_order ?pb [''443/tcp'', ''80/tcp'']
      \<and> ?pb ''443/tcp'' = Some [\<lparr>HostIP = '''', HostPort = ''''\<rparr>]
      \<and> (\<forall>b\<in>set [\<lparr>HostIP = '''', HostPort = ''''\<rparr>]. HostPort b = '''')"
    by (auto simp: range_order_def one_published_example_def)
  have e: "generateRunCommand [''443/tcp'', ''80/tcp''] one_published_example =
       ''docker run -d --name app -p 8080:80/tcp app:latest''"
    by (simp add: generateRunCommand_def generateRunCommand_parts_def one_published_example_def
          TrimPrefix_def HasPrefix_def Sprintf_s_colon_s_def)
  from h publish_flags_of_bound_host_ports [of one_published_example]
  have "generateRunCommand [''443/tcp'', ''80/tcp''] ?info =
   generateRunCommand (removeAll ''443/tcp'' [''443/tcp'', ''80/tcp''])
     (one_published_example\<lparr>HostConfig := (HostConfig one_published_example)\<lparr>PortBindings :=
        ?pb(''443/tcp'' := None)\<rparr>\<rparr>)"
    by blast
  with e block show ?thesis by simp
qed

section \<open>Fields the synthesizer does not read\<close>

lemma bindings_loop_HostPort_only:
  "map HostPort bs = map HostPort bs' \<Longrightarrow> bindings_loop k [] bs = bindings_loop k [] bs'"
proof (induction bs arbitrary: bs')
  case Nil
  then show ?case by simp
next
  case (Cons b bs)
  then obtain b' bs'' where bs': "bs' = b' # bs''" by (cases bs') auto
  with Cons.prems have hp: "HostPort b = HostPort b'" and tl: "map HostPort bs = map HostPort bs''"
    by simp_all
  have "bindings_loop k [] bs = bindings_loop k [] bs''" using Cons.IH [OF tl] .
  then show ?case unfolding bs' by (simp add: bindings_loop_closed hp)
qed

lemma port_block_HostPort_only:
  assumes "map_option (map HostPort) (m k) = map_option (map HostPort) (m' k)"
  shows "(case m k of None \<Rightarrow> [] | Some bs \<Rightarrow> bindings_loop k [] bs) =
         (case m' k of None \<Rightarrow> [] | Some bs \<Rightarrow> bindings_loop k [] bs)"
proof (cases "m k")
  case None
  with assms have "m' k = None" by (cases "m' k") simp_all
  with None show ?thesis by simp
next
  case (Some bs)
  with assms obtain bs' where m': "m' k = Some bs'" by (cases "m' k") simp_all
  with Some assms have "map HostPort bs = map HostPort bs'" by simp
  then have "bindings_loop k [] bs = bindings_loop k [] bs'"
    by (rule bindings_loop_HostPort_only)
  then show ?thesis unfolding Some m' by simp
qed

lemma dom_HostPort_only:
  assumes "\<forall>k. map_option (map HostPort) (m k) = map_option (map HostPort) (m' k)"
  shows "dom m = dom m'"
proof -
  have "(m k = None) = (m' k = None)" for k
    using assms [rule_format, of k] by (cases "m k"; cases "m' k") simp_all
  then show ?thesis by (auto simp: dom_def)
qed

text \<open>
  Claim C10, as stated, fails: two descriptors that differ only in the host interface of
  the bindings, the retry count and the network settings give different commands when
  the runtime visits their two port keys in different orders.
\<close>

theorem unread_fields_orders_differ:
  "ContainerInfo.Name (two_ports_variant '''' 0 Map.empty) =
     ContainerInfo.Name (two_ports_variant ''127.0.0.1'' 3 [''bridge'' \<mapsto> \<lparr>NetworkID = ''4f1c''\<rparr>])
   \<and> Config (two_ports_variant '''' 0 Map.empty) =
     Config (two_ports_variant ''127.0.0.1'' 3 [''bridge'' \<mapsto> \<lparr>NetworkID = ''4f1c''\<rparr>])
   \<and> Binds (HostConfig (two_ports_variant '''' 0 Map.empty)) =
     Binds (HostConfig (two_ports_variant ''127.0.0.1'' 3 [''bridge'' \<mapsto> \<lparr>NetworkID = ''4f1c''\<rparr>]))
   \<and> dom (PortBindings (HostConfig (two_ports_variant '''' 0 Map.empty))) =
     dom (PortBindings (HostConfig
       (two_ports_variant ''127.0.0.1'' 3 [''bridge'' \<mapsto> \<lparr>NetworkID = ''4f1c''\<rparr>])))
   \<and> map_option (map HostPort) (PortBindings (HostConfig (two_ports_variant '''' 0 Map.empty)) ''80/tcp'') =
     map_option (map HostPort) (PortBindings (HostConfig
       (two_ports_variant ''127.0.0.1'' 3 [''bridge'' \<mapsto> \<lparr>NetworkID = ''4f1c''\<rparr>])) ''80/tcp'')
   \<and> map_option (map HostPort) (PortBindings (HostConfig (two_ports_variant '''' 0 Map.empty)) ''443/tcp'') =
     map_option (map HostPort) (PortBindings (HostConfig
       (two_ports_variant ''127.0.0.1'' 3 [''bridge'' \<mapsto> \<lparr>NetworkID = ''4f1c''\<rparr>])) ''443/tcp'')
   \<and> RestartPolicy.Name (RestartPolicy (HostConfig (two_ports_variant '''' 0 Map.empty))) =
     RestartPolicy.Name (RestartPolicy (HostConfig
       (two_ports_variant ''127.0.0.1'' 3 [''bridge'' \<mapsto> \<lparr>NetworkID = ''4f1c''\<rparr>])))
   \<and> NetworkMode (HostConfig (two_ports_variant '''' 0 Map.empty)) =
     NetworkMode (HostConfig (two_ports_variant ''127.0.0.1'' 3 [''bridge'' \<mapsto> \<lparr>NetworkID = ''4f1c''\<rparr>]))
   \<and> Privileged (HostConfig (two_ports_variant '''' 0 Map.empty)) =
     Privileged (HostConfig (two_ports_variant ''127.0.0.1'' 3 [''bridge'' \<mapsto> \<lparr>NetworkID = ''4f1c''\<rparr>]))
   \<and> PublishAllPorts (HostConfig (two_ports_variant '''' 0 Map.empty)) =
     PublishAllPorts (HostConfig (two_ports_variant ''127.0.0.1'' 3 [''bridge'' \<mapsto> \<lparr>NetworkID = ''4f1c''\<rparr>]))
   \<and> range_order (PortBindings (HostConfig (two_ports_variant '''' 0 Map.empty)))
       [''80/tcp'', ''443/tcp'']
   \<and> range_order (PortBindings (HostConfig
       (two_ports_variant ''127.0.0.1'' 3 [''bridge'' \<mapsto> \<lparr>NetworkID = ''4f1c''\<rparr>])))
       [''443/tcp'', ''80/tcp'']
   \<and> generateRunCommand [''80/tcp'', ''443/tcp''] (two_ports_variant '''' 0 Map.empty) =
       ''docker run -d --name app --restart always -p 8080:80/tcp -p 8443:443/tcp app:latest''
   \<and> generateRunCommand [''443/tcp'', ''80/tcp'']
       (two_ports_variant ''127.0.0.1'' 3 [''bridge'' \<mapsto> \<lparr>NetworkID = ''4f1c''\<rparr>]) =
       ''docker run -d --name app --restart always -p 8443:443/tcp -p 8080:80/tcp app:latest''
   \<and> generateRunCommand [''80/tcp'', ''443/tcp''] (two_ports_variant '''' 0 Map.empty) \<noteq>
     generateRunCommand [''443/tcp'', ''80/tcp'']
       (two_ports_variant ''127.0.0.1'' 3 [''bridge'' \<mapsto> \<lparr>NetworkID = ''4f1c''\<rparr>])"
proof -
  let ?a = "two_ports_variant '''' 0 Map.empty"
  let ?b = "two_ports_variant ''127.0.0.1'' 3 [''bridge'' \<mapsto> \<lparr>NetworkID = ''4f1c''\<rparr>]"
  have 1: "generateRunCommand [''80/tcp'', ''443/tcp''] ?a =
       ''docker run -d --name app --restart always -p 8080:80/tcp -p 8443:443/tcp app:latest''"
    by (simp add: generateRunCommand_def generateRunCommand_parts_def two_ports_variant_def
          TrimPrefix_def HasPrefix_def Sprintf_s_colon_s_def)
  have 2: "generateRunCommand [''443/tcp'', ''80/tcp''] ?b =
       ''docker run -d --name app --restart always -p 8443:443/tcp -p 8080:80/tcp app:latest''"
    by (simp add: generateRunCommand_def generateRunCommand_parts_def two_ports_variant_def
          TrimPrefix_def HasPrefix_def Sprintf_s_colon_s_def)
  have 3: "range_order (PortBindings (HostConfig ?a)) [''80/tcp'', ''443/tcp'']"
    by (auto simp: range_order_def two_ports_variant_def)
  have 4: "range_order (PortBindings (HostConfig ?b)) [''443/tcp'', ''80/tcp'']"
    by (auto simp: range_order_def two_ports_variant_def)
  have 5: "dom (PortBindings (HostConfig ?a)) = dom (PortBindings (HostConfig ?b))"
    by (simp add: two_ports_variant_def)
  show ?thesis unfolding 1 2 using 3 4 5 by (simp add: two_ports_variant_def)
qed

text \<open>
  Claim C10, amended. Two descriptors that agree on every field the synthesis algorithm
  enumerates (name, image, command, environment, binds, the keys of the port map and the
  host port of each binding, restart-policy name, network mode, privileged, publish-all)
  and differ only elsewhere (the network settings, the host interface of a port binding,
  the retry count of the restart policy) give identical output whenever the runtime
  visits the port map in the same order for both, and the same orders are possible for
  both: no descriptor field but the enumerated ones influences the command.
\<close>

theorem unread_fields_do_not_influence:
  assumes "ContainerInfo.Name info = ContainerInfo.Name info'"
    and "Config info = Config info'"
    and "Binds (HostConfig info) = Binds (HostConfig info')"
    and "\<forall>port. map_option (map HostPort) (PortBindings (HostConfig info) port) =
                 map_option (map HostPort) (PortBindings (HostConfig info') port)"
    and "RestartPolicy.Name (RestartPolicy (HostConfig info)) =
         RestartPolicy.Name (RestartPolicy (HostConfig info'))"
    and "NetworkMode (HostConfig info) = NetworkMode (HostConfig info')"
    and "Privileged (HostConfig info) = Privileged (HostConfig info')"
    and "PublishAllPorts (HostConfig info) = PublishAllPorts (HostConfig info')"
  shows "generateRunCommand order info = generateRunCommand order info'
       \<and> (range_order (PortBindings (HostConfig info)) order \<longleftrightarrow>
          range_order (PortBindings (HostConfig info')) order)"
proof -
  let ?m = "PortBindings (HostConfig info)" and ?m' = "PortBindings (HostConfig info')"
  have ports: "(\<lambda>k. case ?m k of None \<Rightarrow> [] | Some bs \<Rightarrow> bindings_loop k [] bs) =
        (\<lambda>k. case ?m' k of None \<Rightarrow> [] | Some bs \<Rightarrow> bindings_loop k [] bs)"
    by (rule ext, rule port_block_HostPort_only) (use assms(4) in blast)
  have "generateRunCommand_parts order info = generateRunCommand_parts order info'"
    unfolding parts_layout ports assms(1,2,3,5,6,7,8) ..
  moreover have "dom ?m = dom ?m'" using assms(4) by (rule dom_HostPort_only)
  ultimately show ?thesis by (simp add: generateRunCommand_def range_order_def)
qed

theorem unread_fields_do_not_influence_witness:
  "generateRunCommand [''443/tcp'', ''80/tcp''] (two_ports_variant '''' 0 Map.empty) =
   generateRunCommand [''443/tcp'', ''80/tcp'']
     (two_ports_variant ''127.0.0.1'' 3 [''bridge'' \<mapsto> \<lparr>NetworkID = ''4f1c''\<rparr>])
   \<and> range_order (PortBindings (HostConfig
       (two_ports_variant ''127.0.0.1'' 3 [''bridge'' \<mapsto> \<lparr>NetworkID = ''4f1c''\<rparr>])))
       [''443/tcp'', ''80/tcp'']
   \<and> generateRunCommand [''443/tcp'', ''80/tcp''] (two_ports_variant '''' 0 Map.empty) =
       ''docker run -d --name app --restart always -p 8443:443/tcp -p 8080:80/tcp app:latest''
   \<and> two_ports_variant '''' 0 Map.empty \<noteq>
     two_ports_variant ''127.0.0.1'' 3 [''bridge'' \<mapsto> \<lparr>NetworkID = ''4f1c''\<rparr>]"
proof -
  let ?a = "two_ports_variant '''' 0 Map.empty"
  let ?b = "two_ports_variant ''127.0.0.1'' 3 [''bridge'' \<mapsto> \<lparr>NetworkID = ''4f1c''\<rparr>]"
  have same: "generateRunCommand [''443/tcp'', ''80/tcp''] ?a = generateRunCommand [''443/tcp'', ''80/tcp''] ?b
       \<and> (range_order (PortBindings (HostConfig ?a)) [''443/tcp'', ''80/tcp''] \<longleftrightarrow>
          range_order (PortBindings (HostConfig ?b)) [''443/tcp'', ''80/tcp''])"
    by (rule unread_fields_do_not_influence) (simp_all add: two_ports_variant_def)
  have ro: "range_order (PortBindings (HostConfig ?a)) [''443/tcp'', ''80/tcp'']"
    by (auto simp: range_order_def two_ports_variant_def)
  have out: "generateRunCommand [''443/tcp'', ''80/tcp''] ?a =
       ''docker run -d --name app --restart always -p 8443:443/tcp -p 8080:80/tcp app:latest''"
    by (simp add: generateRunCommand_def generateRunCommand_parts_def two_ports_variant_def
          TrimPrefix_def HasPrefix_def Sprintf_s_colon_s_def)
  have diff: "MaximumRetryCount (RestartPolicy (HostConfig ?a)) \<noteq>
              MaximumRetryCount (RestartPolicy (HostConfig ?b))"
    by (simp add: two_ports_variant_def)
  then have ne: "?a \<noteq> ?b" by auto
  from same ro out ne show ?thesis by simp
qed

section \<open>The descriptor loader\<close>

text \<open>
  Claim C9. The loader fails with the error \<open>container not found\<close> exactly when the
  inspection succeeds and its output decodes to an empty array of containers; when the
  output decodes to an array of one or more containers, the loader returns the first
  element of the array.
\<close>

theorem loader_not_found_iff_no_match:
  "(snd (getContainerInfo w containerName) = Inl NotFound \<longleftrightarrow>
      (\<exists>output. docker_inspect w containerName = Inr output \<and> json_Unmarshal w output = Inr []))
   \<and> (\<forall>output c cs.
        docker_inspect w containerName = Inr output \<and> json_Unmarshal w output = Inr (c # cs)
        \<longrightarrow> snd (getContainerInfo w containerName) = Inr c)"
proof (cases "docker_inspect w containerName")
  case (Inl err)
  then have "snd (getContainerInfo w containerName) = Inl (QueryFailed err)"
    by (simp add: getContainerInfo_def)
  with Inl show ?thesis by simp
next
  case (Inr out)
  show ?thesis
  proof (cases "json_Unmarshal w out")
    case (Inl err)
    with Inr have "snd (getContainerInfo w containerName) = Inl (DecodeFailed err)"
      by (simp add: getContainerInfo_def)
    with Inr Inl show ?thesis by simp
  next
    case containers: (Inr containers)
    show ?thesis
    proof (cases containers)
      case Nil
      with Inr containers have "snd (getContainerInfo w containerName) = Inl NotFound"
        by (simp add: getContainerInfo_def)
      with Inr containers Nil show ?thesis by simp
    next
      case (Cons c cs)
      with Inr containers have "snd (getContainerInfo w containerName) = Inr c"
        by (simp add: getContainerInfo_def)
      with Inr containers Cons show ?thesis by simp
    qed
  qed
qed

theorem loader_not_found_iff_no_match_witness:
  "snd (getContainerInfo (example_world '''') ''app'') = Inr (spec_example ''0.0.0.0'' 0 Map.empty)
   \<and> snd (getContainerInfo ((example_world '''')\<lparr>json_Unmarshal := (\<lambda>out. Inr [])\<rparr>) ''app'') =
       Inl NotFound"
proof -
  have 1: "docker_inspect (example_world '''') ''app'' = Inr ''[{...}, {...}]''
        \<and> json_Unmarshal (example_world '''') ''[{...}, {...}]'' =
            Inr (spec_example ''0.0.0.0'' 0 Map.empty # [two_ports_example])"
    by (simp add: example_world_def)
  have 2: "\<exists>output.
          docker_inspect ((example_world '''')\<lparr>json_Unmarshal := (\<lambda>out. Inr [])\<rparr>) ''app'' = Inr output
        \<and> json_Unmarshal ((example_world '''')\<lparr>json_Unmarshal := (\<lambda>out. Inr [])\<rparr>) output = Inr []"
    by (simp add: example_world_def)
  show ?thesis
    using 1 2 loader_not_found_iff_no_match [of "example_world ''''" "''app''"]
      loader_not_found_iff_no_match
        [of "(example_world '''')\<lparr>json_Unmarshal := (\<lambda>out. Inr [])\<rparr>" "''app''"]
    by blast
qed

section \<open>The confirmation\<close>

lemma lowerASCII_ascii: "of_char c < RuneSelf \<Longrightarrow> of_char (lowerASCII c) < RuneSelf"
  by (auto simp: lowerASCII_def isUpperASCII_def RuneSelf_def)

lemma ToLower_ascii:
  assumes "list_all (\<lambda>c. of_char c < RuneSelf) s"
  shows "ToLower lib s = map lowerASCII s"
proof -
  have "map lowerASCII s = s" if "\<not> list_ex isUpperASCII s"
    using that by (induction s) (simp_all add: lowerASCII_def)
  with assms show ?thesis by (auto simp: ToLower_def Let_def)
qed

lemma TrimSpace_ascii:
  assumes "list_all (\<lambda>c. of_char c < RuneSelf) s"
  shows "TrimSpace lib s = rev (dropWhile asciiSpace (rev (dropWhile asciiSpace s)))"
proof -
  define t where "t = dropWhile asciiSpace s"
  define u where "u = rev (dropWhile asciiSpace (rev t))"
  have ascii_t: "\<forall>c\<in>set t. of_char c < RuneSelf"
    unfolding t_def using assms set_dropWhileD [of _ asciiSpace s] by (auto simp: list_all_iff)
  have ascii_u: "\<forall>c\<in>set u. of_char c < RuneSelf"
    unfolding u_def using ascii_t set_dropWhileD [of _ asciiSpace "rev t"] by auto
  have fallback: "\<not> (u \<noteq> [] \<and> RuneSelf \<le> of_char (last u))"
  proof
    assume a: "u \<noteq> [] \<and> RuneSelf \<le> of_char (last u)"
    then have "last u \<in> set u" by simp
    with ascii_u have "of_char (last u) < RuneSelf" by blast
    with a show False by simp
  qed
  have unfolded: "TrimSpace lib s =
      (case t of [] \<Rightarrow> []
       | c # _ \<Rightarrow> if RuneSelf \<le> of_char c then TrimFunc_IsSpace lib t
                  else if u \<noteq> [] \<and> RuneSelf \<le> of_char (last u)
                       then TrimRightFunc_IsSpace lib u else u)"
    unfolding TrimSpace_def Let_def t_def u_def by (rule refl)
  show ?thesis
  proof (cases t)
    case Nil
    then have "u = []" by (simp add: u_def)
    with Nil show ?thesis unfolding unfolded by (simp add: t_def [symmetric] u_def [symmetric])
  next
    case (Cons c cs)
    with ascii_t have c: "\<not> RuneSelf \<le> of_char c" by (auto simp: not_le)
    from Cons c fallback have "TrimSpace lib s = u" unfolding unfolded by auto
    then show ?thesis by (simp add: u_def t_def)
  qed
qed

lemma trim_lower_ascii:
  assumes "list_all (\<lambda>c. of_char c < RuneSelf) s"
  shows "TrimSpace lib (ToLower lib s) = spec_trim_lower s"
proof -
  have "list_all (\<lambda>c. of_char c < RuneSelf) (map lowerASCII s)"
    using assms by (auto simp: list_all_iff lowerASCII_ascii)
  then show ?thesis
    by (simp add: ToLower_ascii [OF assms] TrimSpace_ascii spec_trim_lower_def)
qed

lemma getContainerInfo_events: "fst (getContainerInfo w n) = [Docker [''inspect'', n]]"
  by (simp add: getContainerInfo_def)

lemma stopAndRemoveContainer_no_shell: "Shell c \<notin> set (fst (stopAndRemoveContainer w n))"
  by (simp add: stopAndRemoveContainer_def split: option.splits)

lemma stopAndRemoveContainer_ok:
  "snd (stopAndRemoveContainer w n) = None \<Longrightarrow>
   fst (stopAndRemoveContainer w n) = [Docker [''stop'', n], Docker [''rm'', n]]"
  by (simp add: stopAndRemoveContainer_def split: option.splits)

text \<open>The command is handed to the shell only after an accepted confirmation.\<close>

lemma main_shell_confirmed:
  assumes "Shell c \<in> set (fst (main lib w args))"
  shows "confirmExecution lib w"
proof (rule ccontr)
  assume no: "\<not> confirmExecution lib w"
  let ?n = "args ! 1"
  have 1: "Shell c \<notin> set (fst (getContainerInfo w ?n))"
    by (simp add: getContainerInfo_events)
  have 2: "Shell c \<notin> set (fst (stopAndRemoveContainer w ?n))"
    by (rule stopAndRemoveContainer_no_shell)
  have 3: "Shell c \<notin> set (fst (pullLatestImage w i))" for i
    by (simp add: pullLatestImage_def)
  have "Shell c \<notin> set (fst (main lib w args))"
    unfolding main_def Let_def split_beta using no 1 2 3
    by (simp split: sum.splits option.splits)
  with assms show False by simp
qed

lemma main_declined:
  assumes "2 \<le> length args"
    and "snd (getContainerInfo w (args ! 1)) = Inr info"
    and "snd (stopAndRemoveContainer w (args ! 1)) = None"
    and "snd (pullLatestImage w (Image (Config info))) = None"
    and "\<not> confirmExecution lib w"
  shows "main lib w args =
           ([Docker [''inspect'', args ! 1], Docker [''stop'', args ! 1], Docker [''rm'', args ! 1],
             Docker [''pull'', Image (Config info)]], 0)"
proof -
  have g: "getContainerInfo w (args ! 1) = ([Docker [''inspect'', args ! 1]], Inr info)"
    using assms(2) getContainerInfo_events [of w "args ! 1"]
    by (cases "getContainerInfo w (args ! 1)") simp
  have s: "stopAndRemoveContainer w (args ! 1) =
             ([Docker [''stop'', args ! 1], Docker [''rm'', args ! 1]], None)"
    using assms(3) stopAndRemoveContainer_ok [OF assms(3)]
    by (cases "stopAndRemoveContainer w (args ! 1)") simp
  have p: "pullLatestImage w (Image (Config info)) = ([Docker [''pull'', Image (Config info)]], None)"
    using assms(4) by (simp add: pullLatestImage_def split: option.splits)
  show ?thesis unfolding main_def Let_def g s using assms(1,5) by (simp add: p)
qed

text \<open>
  Claim C8. The confirmation accepts exactly when a line was read and the line,
  lower-cased and with the white space trimmed, is \<open>y\<close> or \<open>yes\<close> (on a line of ASCII
  bytes the lowering and trimming are those of \<open>spec_trim_lower\<close>); any other response
  declines, and so does any read failure. The command is run only after an accepted
  confirmation, and a run that reaches the confirmation and is declined has started the
  inspection, the stop, the removal and the pull and nothing else, and ends with exit
  status 0.
\<close>

theorem declined_confirmation_runs_nothing:
  "(confirmExecution lib w \<longleftrightarrow>
      (\<exists>response. ReadString (stdin_data w) (stdin_error w) (CHR 0x0A) = (response, None)
         \<and> (TrimSpace lib (ToLower lib response) = ''y''
            \<or> TrimSpace lib (ToLower lib response) = ''yes'')))
   \<and> (\<forall>response. list_all (\<lambda>c. of_char c < RuneSelf) response \<longrightarrow>
          TrimSpace lib (ToLower lib response) = spec_trim_lower response)
   \<and> (\<forall>response err. ReadString (stdin_data w) (stdin_error w) (CHR 0x0A) = (response, Some err)
          \<longrightarrow> \<not> confirmExecution lib w)
   \<and> (\<forall>command. Shell command \<in> set (fst (main lib w args)) \<longrightarrow> confirmExecution lib w)
   \<and> (\<forall>info. 2 \<le> length args
          \<and> snd (getContainerInfo w (args ! 1)) = Inr info
          \<and> snd (stopAndRemoveContainer w (args ! 1)) = None
          \<and> snd (pullLatestImage w (Image (Config info))) = None
          \<and> \<not> confirmExecution lib w
        \<longrightarrow> main lib w args =
             ([Docker [''inspect'', args ! 1], Docker [''stop'', args ! 1],
               Docker [''rm'', args ! 1], Docker [''pull'', Image (Config info)]], 0))"
proof (intro conjI allI impI)
  show "confirmExecution lib w \<longleftrightarrow>
      (\<exists>response. ReadString (stdin_data w) (stdin_error w) (CHR 0x0A) = (response, None)
         \<and> (TrimSpace lib (ToLower lib response) = ''y''
            \<or> TrimSpace lib (ToLower lib response) = ''yes''))"
    by (cases "ReadString (stdin_data w) (stdin_error w) (CHR 0x0A)")
       (auto simp: confirmExecution_def Let_def split: option.splits)
next
  fix response
  assume "list_all (\<lambda>c. of_char c < RuneSelf) response"
  then show "TrimSpace lib (ToLower lib response) = spec_trim_lower response"
    by (rule trim_lower_ascii)
next
  fix response err
  assume "ReadString (stdin_data w) (stdin_error w) (CHR 0x0A) = (response, Some err)"
  then show "\<not> confirmExecution lib w" by (simp add: confirmExecution_def)
next
  fix command
  assume "Shell command \<in> set (fst (main lib w args))"
  then show "confirmExecution lib w" by (rule main_shell_confirmed)
next
  fix info
  assume "2 \<le> length args
          \<and> snd (getContainerInfo w (args ! 1)) = Inr info
          \<and> snd (stopAndRemoveContainer w (args ! 1)) = None
          \<and> snd (pullLatestImage w (Image (Config info))) = None
          \<and> \<not> confirmExecution lib w"
  then show "main lib w args =
             ([Docker [''inspect'', args ! 1], Docker [''stop'', args ! 1],
               Docker [''rm'', args ! 1], Docker [''pull'', Image (Config info)]], 0)"
    using main_declined by blast
qed

theorem declined_confirmation_runs_nothing_witness:
  "confirmExecution quiet_lib (example_world (''  YeS '' @ [CHR 0x0D, CHR 0x0A]))
   \<and> main quiet_lib (example_world (''  YeS '' @ [CHR 0x0D, CHR 0x0A])) [''drun'', ''app''] =
       ([Docker [''inspect'', ''app''], Docker [''stop'', ''app''], Docker [''rm'', ''app''],
         Docker [''pull'', ''app:latest''],
         Shell ''docker run -d --name app --restart always -v /data:/data -p 8080:80/tcp -e KEY=1 app:latest serve''], 0)
   \<and> \<not> confirmExecution quiet_lib (example_world ''y'')
   \<and> main quiet_lib (example_world (''no'' @ [CHR 0x0A])) [''drun'', ''app''] =
       ([Docker [''inspect'', ''app''], Docker [''stop'', ''app''], Docker [''rm'', ''app''],
         Docker [''pull'', ''app:latest'']], 0)
   \<and> TrimSpace quiet_lib (ToLower quiet_lib (''  YeS '' @ [CHR 0x0D, CHR 0x0A])) = ''yes''"
proof -
  have ascii: "list_all (\<lambda>c. of_char c < RuneSelf) (''  YeS '' @ [CHR 0x0D, CHR 0x0A])"
    by (simp add: RuneSelf_def)
  have "spec_trim_lower (''  YeS '' @ [CHR 0x0D, CHR 0x0A]) = ''yes''"
    by code_simp
  moreover from ascii declined_confirmation_runs_nothing [of quiet_lib "example_world ''''" "[]"]
  have "TrimSpace quiet_lib (ToLower quiet_lib (''  YeS '' @ [CHR 0x0D, CHR 0x0A])) =
        spec_trim_lower (''  YeS '' @ [CHR 0x0D, CHR 0x0A])"
    by blast
  ultimately have trimmed:
    "TrimSpace quiet_lib (ToLower quiet_lib (''  YeS '' @ [CHR 0x0D, CHR 0x0A])) = ''yes''"
    by simp
  let ?yes = "example_world (''  YeS '' @ [CHR 0x0D, CHR 0x0A])"
  let ?no = "example_world (''no'' @ [CHR 0x0A])"
  let ?args = "[''drun'', ''app'']"
  have run: "main quiet_lib ?yes ?args =
       ([Docker [''inspect'', ''app''], Docker [''stop'', ''app''], Docker [''rm'', ''app''],
         Docker [''pull'', ''app:latest''],
         Shell ''docker run -d --name app --restart always -v /data:/data -p 8080:80/tcp -e KEY=1 app:latest serve''], 0)"
    by code_simp
  then have "Shell ''docker run -d --name app --restart always -v /data:/data -p 8080:80/tcp -e KEY=1 app:latest serve''
      \<in> set (fst (main quiet_lib ?yes ?args))"
    by simp
  with declined_confirmation_runs_nothing [of quiet_lib ?yes ?args]
  have yes: "confirmExecution quiet_lib ?yes" by blast
  have "ReadString (stdin_data (example_world ''y'')) (stdin_error (example_world ''y'')) (CHR 0x0A) =
        (''y'', Some ''EOF'')"
    by (simp add: ReadString_def example_world_def)
  with declined_confirmation_runs_nothing [of quiet_lib "example_world ''y''" ?args]
  have eof: "\<not> confirmExecution quiet_lib (example_world ''y'')" by blast
  have pre: "2 \<le> length ?args
      \<and> snd (getContainerInfo ?no (?args ! 1)) = Inr (spec_example ''0.0.0.0'' 0 Map.empty)
      \<and> snd (stopAndRemoveContainer ?no (?args ! 1)) = None
      \<and> snd (pullLatestImage ?no (Image (Config (spec_example ''0.0.0.0'' 0 Map.empty)))) = None"
    by (simp add: getContainerInfo_def stopAndRemoveContainer_def pullLatestImage_def
          example_world_def)
  have "\<not> confirmExecution quiet_lib ?no" by code_simp
  with pre declined_confirmation_runs_nothing [of quiet_lib ?no ?args]
  have "main quiet_lib ?no ?args =
       ([Docker [''inspect'', ?args ! 1], Docker [''stop'', ?args ! 1], Docker [''rm'', ?args ! 1],
         Docker [''pull'', Image (Config (spec_example ''0.0.0.0'' 0 Map.empty))]], 0)"
    by blast
  then have no: "main quiet_lib ?no ?args =
       ([Docker [''inspect'', ''app''], Docker [''stop'', ''app''], Docker [''rm'', ''app''],
         Docker [''pull'', ''app:latest'']], 0)"
    by (simp add: spec_example_def)
  show ?thesis using run yes eof no trimmed by simp
qed

end
